theory Spec2Isabelle
  imports Complex_Main
begin

section \<open>Values and the simulated PLC\<close>

text \<open>
  The client of \<^verbatim>\<open>communication/cip_client.py\<close> moves untyped Python values between
  the vision process and the controller. Only their truthiness is ever inspected
  (\<^verbatim>\<open>if name == "PRODUCT_DETECTED" and value\<close>); otherwise they are stored and handed back.
\<close>

datatype pyval = PNone | PBool bool | PInt int | PFloat real | PStr string

fun truthy :: "pyval \<Rightarrow> bool" where
  "truthy PNone = False"
| "truthy (PBool b) = b"
| "truthy (PInt i) = (i \<noteq> 0)"
| "truthy (PFloat x) = (x \<noteq> 0)"
| "truthy (PStr s) = (s \<noteq> [])"

text \<open>\<^verbatim>\<open>dict.get(key, default)\<close>.\<close>

definition dict_get :: "('k \<rightharpoonup> 'v) \<Rightarrow> 'k \<Rightarrow> 'v \<Rightarrow> 'v" where
  "dict_get d k dflt = (case d k of Some v \<Rightarrow> v | None \<Rightarrow> dflt)"

text \<open>
  \<^verbatim>\<open>threading.Timer(delay, callback).start()\<close>: the two callbacks of the simulated PLC,
  kept with their delay in the order they were started.
\<close>

datatype timer_callback = AutoAck | ResetAck

record SimulatedPLC =
  tags :: "string \<rightharpoonup> pyval"
  ack_delay :: real
  timers :: "(real \<times> timer_callback) list"

definition default_tags :: "(string \<times> pyval) list" where
  "default_tags =
    [(''VisionCtrl_VisionReady'', PBool False),
     (''VisionCtrl_VisionBusy'', PBool False),
     (''VisionCtrl_VisionError'', PBool False),
     (''VisionCtrl_Heartbeat'', PBool False),
     (''PRODUCT_DETECTED'', PBool False),
     (''CENTROID_X'', PFloat 0),
     (''CENTROID_Y'', PFloat 0),
     (''CONFIDENCE'', PFloat 0),
     (''DETECTION_COUNT'', PInt 0),
     (''PROCESSING_TIME'', PFloat 0),
     (''VisionCtrl_EchoAck'', PBool False),
     (''VisionCtrl_DataSent'', PBool False),
     (''VisionCtrl_ReadyForNext'', PBool False),
     (''SYSTEM_FAULT'', PBool False),
     (''ROBOT_ACK'', PBool False),
     (''ROBOT_READY'', PBool True),
     (''ROBOT_ERROR'', PBool False),
     (''RobotStatus_Busy'', PBool False),
     (''RobotStatus_PickComplete'', PBool False),
     (''RobotStatus_PlaceComplete'', PBool False),
     (''RobotCtrl_AuthorizeDetection'', PBool True),
     (''RobotCtrl_CycleStart'', PBool False),
     (''RobotCtrl_CycleComplete'', PBool False),
     (''RobotCtrl_EmergencyStop'', PBool False),
     (''RobotCtrl_SystemMode'', PInt 1),
     (''SystemStatus_Heartbeat'', PBool False),
     (''SystemStatus_Mode'', PInt 1),
     (''Safety_GateClosed'', PBool True),
     (''Safety_AreaClear'', PBool True),
     (''Safety_LightCurtainOK'', PBool True),
     (''Safety_EmergencyStop'', PBool True)]"

text \<open>\<^verbatim>\<open>SimulatedPLC.__init__\<close>.\<close>

definition SimulatedPLC_init :: SimulatedPLC where
  "SimulatedPLC_init = \<lparr>tags = map_of default_tags, ack_delay = 3 / 2, timers = []\<rparr>"

text \<open>\<^verbatim>\<open>SimulatedPLC.read_variable\<close>: \<^verbatim>\<open>self._tags.get(name, 0)\<close>.\<close>

definition read_variable :: "SimulatedPLC \<Rightarrow> string \<Rightarrow> pyval" where
  "read_variable p name = dict_get (tags p) name (PInt 0)"

text \<open>
  \<^verbatim>\<open>SimulatedPLC.write_variable\<close>: the store is updated, and a truthy write to
  \<^verbatim>\<open>PRODUCT_DETECTED\<close> starts the acknowledgement timer.
\<close>

definition write_variable :: "SimulatedPLC \<Rightarrow> string \<Rightarrow> pyval \<Rightarrow> SimulatedPLC" where
  "write_variable p name v =
     (let p1 = p\<lparr>tags := (tags p)(name \<mapsto> v)\<rparr>
      in if name = ''PRODUCT_DETECTED'' \<and> truthy v
         then p1\<lparr>timers := timers p1 @ [(ack_delay p1, AutoAck)]\<rparr>
         else p1)"

text \<open>\<^verbatim>\<open>SimulatedPLC._auto_ack\<close> and \<^verbatim>\<open>SimulatedPLC._reset_ack\<close>, run when their timer fires.\<close>

definition auto_ack :: "SimulatedPLC \<Rightarrow> SimulatedPLC" where
  "auto_ack p = p\<lparr>tags := (tags p)(''ROBOT_ACK'' \<mapsto> PBool True),
                  timers := timers p @ [(1, ResetAck)]\<rparr>"

definition reset_ack :: "SimulatedPLC \<Rightarrow> SimulatedPLC" where
  "reset_ack p = p\<lparr>tags := (tags p)(''ROBOT_ACK'' \<mapsto> PBool False)\<rparr>"

section \<open>Errors\<close>

text \<open>
  The exceptions of \<^verbatim>\<open>communication/exceptions.py\<close> that the client raises, with the
  reason each \<^verbatim>\<open>raise\<close> of the source gives, and the two built-in exceptions that
  starting the heartbeat timer can raise. A failure inside the driver is the text of its
  exception (\<^verbatim>\<open>str(e)\<close>).
\<close>

datatype connection_fault =
    NotConnected
  | AphytNotInstalled
  | ConnectFailed string string

datatype tag_fault =
    TagNotAllowed string
  | TagNotReadable string
  | TagNotWritable string
  | InvalidValue string pyval
  | ReadFailed string string
  | WriteFailed string string

datatype cip_error =
    CIPConnectionError connection_fault
  | CIPTagError tag_fault
  | OverflowError
  | ValueError

type_synonym 'a result = "cip_error + 'a"

fun is_tag_error :: "cip_error \<Rightarrow> bool" where
  "is_tag_error (CIPTagError f) = True"
| "is_tag_error (CIPConnectionError f) = False"
| "is_tag_error OverflowError = False"
| "is_tag_error ValueError = False"

section \<open>The tag map\<close>

text \<open>
  \<^verbatim>\<open>communication/tag_map.py\<close> is not among the sources. The client only calls its five
  methods, so the client is modelled over any tag map given by these five functions.
\<close>

record TagMap =
  is_valid_tag :: "string \<Rightarrow> bool"
  is_readable :: "string \<Rightarrow> bool"
  is_writable :: "string \<Rightarrow> bool"
  validate_value :: "string \<Rightarrow> pyval \<Rightarrow> bool"
  get_plc_name :: "string \<Rightarrow> string result"

datatype direction = READ | WRITE | READ_WRITE

datatype value_kind = KBool | KInt | KFloat

datatype constraint = Unconstrained | Range real real | Enumerated "pyval list"

record TagDescriptor =
  logical_name :: string
  physical_name :: string
  tag_direction :: direction
  tag_kind :: value_kind
  tag_constraint :: constraint

fun kind_matches :: "value_kind \<Rightarrow> pyval \<Rightarrow> bool" where
  "kind_matches KBool (PBool b) = True"
| "kind_matches KInt (PInt i) = True"
| "kind_matches KFloat (PFloat x) = True"
| "kind_matches k v = False"

fun satisfies :: "constraint \<Rightarrow> pyval \<Rightarrow> bool" where
  "satisfies Unconstrained v = True"
| "satisfies (Range lo hi) (PInt i) = (lo \<le> of_int i \<and> of_int i \<le> hi)"
| "satisfies (Range lo hi) (PFloat x) = (lo \<le> x \<and> x \<le> hi)"
| "satisfies (Range lo hi) v = False"
| "satisfies (Enumerated vs) v = (v \<in> set vs)"

definition descriptor :: "TagDescriptor list \<Rightarrow> string \<Rightarrow> TagDescriptor option" where
  "descriptor table name = find (\<lambda>d. logical_name d = name) table"

text \<open>
  Modelled from the spec: the \<^verbatim>\<open>TagMap\<close> class of \<^verbatim>\<open>communication/tag_map.py\<close>, which is
  missing from the sources: a static descriptor table; a tag is valid iff it is in the
  table, readable or writable iff its direction permits the access, a value validates iff
  its kind matches and it satisfies the declared range or enumeration (unknown tags
  validate to false), and the physical name of an unknown tag is an unknown-tag error.
\<close>

definition TagMap_of :: "TagDescriptor list \<Rightarrow> TagMap" where
  "TagMap_of table =
    \<lparr>is_valid_tag = (\<lambda>n. descriptor table n \<noteq> None),
     is_readable = (\<lambda>n. case descriptor table n of None \<Rightarrow> False
                     | Some d \<Rightarrow> tag_direction d = READ \<or> tag_direction d = READ_WRITE),
     is_writable = (\<lambda>n. case descriptor table n of None \<Rightarrow> False
                     | Some d \<Rightarrow> tag_direction d = WRITE \<or> tag_direction d = READ_WRITE),
     validate_value = (\<lambda>n v. case descriptor table n of None \<Rightarrow> False
                     | Some d \<Rightarrow> kind_matches (tag_kind d) v \<and> satisfies (tag_constraint d) v),
     get_plc_name = (\<lambda>n. case descriptor table n of None \<Rightarrow> Inl (CIPTagError (TagNotAllowed n))
                     | Some d \<Rightarrow> Inr (physical_name d))\<rparr>"

text \<open>
  A descriptor table for the logical names that \<^verbatim>\<open>cip_client.py\<close> itself uses, over the
  registers of the simulated PLC. It serves to evaluate the client on concrete inputs.
\<close>

definition vision_tags :: "TagDescriptor list" where
  "vision_tags =
    [\<lparr>logical_name = ''ProductDetected'', physical_name = ''PRODUCT_DETECTED'',
      tag_direction = WRITE, tag_kind = KBool, tag_constraint = Unconstrained\<rparr>,
     \<lparr>logical_name = ''CentroidX'', physical_name = ''CENTROID_X'',
      tag_direction = WRITE, tag_kind = KFloat, tag_constraint = Unconstrained\<rparr>,
     \<lparr>logical_name = ''CentroidY'', physical_name = ''CENTROID_Y'',
      tag_direction = WRITE, tag_kind = KFloat, tag_constraint = Unconstrained\<rparr>,
     \<lparr>logical_name = ''Confidence'', physical_name = ''CONFIDENCE'',
      tag_direction = WRITE, tag_kind = KFloat, tag_constraint = Range 0 1\<rparr>,
     \<lparr>logical_name = ''DetectionCount'', physical_name = ''DETECTION_COUNT'',
      tag_direction = WRITE, tag_kind = KInt, tag_constraint = Unconstrained\<rparr>,
     \<lparr>logical_name = ''ProcessingTime'', physical_name = ''PROCESSING_TIME'',
      tag_direction = WRITE, tag_kind = KFloat, tag_constraint = Unconstrained\<rparr>,
     \<lparr>logical_name = ''VisionDataSent'', physical_name = ''VisionCtrl_DataSent'',
      tag_direction = WRITE, tag_kind = KBool, tag_constraint = Unconstrained\<rparr>,
     \<lparr>logical_name = ''VisionHeartbeat'', physical_name = ''VisionCtrl_Heartbeat'',
      tag_direction = WRITE, tag_kind = KBool, tag_constraint = Unconstrained\<rparr>,
     \<lparr>logical_name = ''RobotAck'', physical_name = ''ROBOT_ACK'',
      tag_direction = READ, tag_kind = KBool, tag_constraint = Unconstrained\<rparr>]"

definition vision_tag_map :: TagMap where
  "vision_tag_map = TagMap_of vision_tags"

section \<open>Configuration, connection state and the outside world\<close>

text \<open>
  A Python float as far as starting the heartbeat timer tells values apart: a finite
  number, an infinity or not-a-number.
\<close>

datatype pyfloat = Finite real | PosInf | NegInf | NaN

text \<open>
  The \<^verbatim>\<open>cip\<close> section of the settings object that \<^verbatim>\<open>get_settings()\<close> returns; the
  configuration page writes these fields when the user saves.
\<close>

record cip_settings =
  cip_ip :: string
  cip_port :: int
  cip_connection_timeout :: real
  cip_simulated :: bool
  cip_retry_interval :: real
  cip_max_retries :: int
  cip_heartbeat_interval :: pyfloat

datatype ConnectionStatus = DISCONNECTED | CONNECTING | CONNECTED | SIMULATED | DEGRADED

text \<open>
  Modelled from the spec: the \<^verbatim>\<open>ConnectionState\<close> class of
  \<^verbatim>\<open>communication/connection_state.py\<close>, which is missing from the sources. The client
  constructs it with \<^verbatim>\<open>status\<close>, \<^verbatim>\<open>ip\<close> and \<^verbatim>\<open>port\<close> and assigns its attributes
  directly, so it is a plain record; the fields the constructor call leaves out start as
  not simulated, never connected, no error, zero errors. \<open>is_connected\<close> holds in the
  three statuses that denote a session.
\<close>

record ConnectionState =
  status :: ConnectionStatus
  ip :: string
  port :: int
  is_simulated :: bool
  last_connected :: "nat option"
  last_error :: "string option"
  error_count :: int

definition is_connected :: "ConnectionState \<Rightarrow> bool" where
  "is_connected s = (status s = CONNECTED \<or> status s = SIMULATED \<or> status s = DEGRADED)"

text \<open>
  The calls the client makes on the \<^verbatim>\<open>aphyt\<close> driver. The driver and the device behind it
  are outside the program: the environment answers each call from the calls made so far,
  either with a value or with the text of the exception it raises, and records the call.
\<close>

datatype plc_call =
    ConnectExplicit string "real option"
  | Close
  | ReadVariable string
  | WriteVariable string pyval

datatype NSeries = NSeries

record env =
  get_settings :: cip_settings
  now :: nat
  aphyt_installed :: bool
  respond :: "plc_call list \<Rightarrow> plc_call \<Rightarrow> string + pyval"
  calls :: "plc_call list"

definition driver_call :: "plc_call \<Rightarrow> env \<Rightarrow> (string + pyval) \<times> env" where
  "driver_call k e = (respond e (calls e) k, e\<lparr>calls := calls e @ [k]\<rparr>)"

section \<open>The client\<close>

text \<open>
  A \<^verbatim>\<open>QTimer\<close> object: the interval in milliseconds it was started with, or nothing
  while it has been created but not started.
\<close>

datatype QTimer = QTimer "int option"

record CIPClient =
  self_settings :: cip_settings
  self_ip :: string
  self_port :: int
  self_timeout :: real
  self_simulated :: bool
  self_plc :: "NSeries option"
  self_simulated_plc :: "SimulatedPLC option"
  self_state :: ConnectionState
  self_heartbeat_timer :: "QTimer option"
  self_heartbeat_value :: bool
  self_reconnect_attempts :: int
  self_max_reconnect_attempts :: int

text \<open>\<^verbatim>\<open>CIPClient.__init__\<close>.\<close>

definition CIPClient_init :: "env \<Rightarrow> CIPClient" where
  "CIPClient_init e =
    (let s = get_settings e in
     \<lparr>self_settings = s,
      self_ip = cip_ip s,
      self_port = cip_port s,
      self_timeout = cip_connection_timeout s,
      self_simulated = cip_simulated s,
      self_plc = None,
      self_simulated_plc = None,
      self_state = \<lparr>status = DISCONNECTED, ip = cip_ip s, port = cip_port s,
                     is_simulated = False, last_connected = None, last_error = None,
                     error_count = 0\<rparr>,
      self_heartbeat_timer = None,
      self_heartbeat_value = False,
      self_reconnect_attempts = 0,
      self_max_reconnect_attempts = cip_max_retries s\<rparr>)"

text \<open>\<^verbatim>\<open>CIPClient._reload_connection_config\<close>.\<close>

definition reload_connection_config :: "CIPClient \<Rightarrow> env \<Rightarrow> CIPClient" where
  "reload_connection_config c e =
    (let s = get_settings e in
     c\<lparr>self_settings := s,
       self_ip := cip_ip s,
       self_port := cip_port s,
       self_timeout := cip_connection_timeout s,
       self_simulated := cip_simulated s,
       self_state := (self_state c)\<lparr>ip := cip_ip s, port := cip_port s\<rparr>\<rparr>)"

text \<open>\<^verbatim>\<open>CIPClient._update_state\<close>.\<close>

definition update_state :: "CIPClient \<Rightarrow> ConnectionStatus \<Rightarrow> CIPClient" where
  "update_state c st = c\<lparr>self_state := (self_state c)\<lparr>status := st\<rparr>\<rparr>"

text \<open>
  \<^verbatim>\<open>heartbeat_interval * 1000\<close> on a Python float. The product of a finite value is
  taken exactly (rounding to the nearest double is left out), except that a product at
  or beyond the overflow threshold of a double, \<^verbatim>\<open>2**1024 - 2**970\<close>, is infinite.
\<close>

definition float_overflow :: real where
  "float_overflow = 2 ^ 970 * (2 ^ 54 - 1)"

definition times_1000 :: "pyfloat \<Rightarrow> pyfloat" where
  "times_1000 x =
    (case x of
       Finite r \<Rightarrow>
         (if float_overflow \<le> r * 1000 then PosInf
          else if r * 1000 \<le> - float_overflow then NegInf
          else Finite (r * 1000))
     | PosInf \<Rightarrow> PosInf
     | NegInf \<Rightarrow> NegInf
     | NaN \<Rightarrow> NaN)"

text \<open>
  Python's \<^verbatim>\<open>int(x)\<close> on a float truncates towards zero, and raises \<^verbatim>\<open>OverflowError\<close>
  on an infinity and \<^verbatim>\<open>ValueError\<close> on not-a-number.
\<close>

definition py_int :: "pyfloat \<Rightarrow> int result" where
  "py_int x =
    (case x of
       Finite r \<Rightarrow> Inr (if 0 \<le> r then \<lfloor>r\<rfloor> else \<lceil>r\<rceil>)
     | PosInf \<Rightarrow> Inl OverflowError
     | NegInf \<Rightarrow> Inl OverflowError
     | NaN \<Rightarrow> Inl ValueError)"

text \<open>
  \<^verbatim>\<open>QTimer.start(interval)\<close> takes a C \<^verbatim>\<open>int\<close>: a Python integer outside its 32 bits
  raises \<^verbatim>\<open>OverflowError\<close>.
\<close>

definition c_int :: "int \<Rightarrow> bool" where
  "c_int n = (- (2 ^ 31) \<le> n \<and> n < 2 ^ 31)"

text \<open>
  \<^verbatim>\<open>CIPClient._start_heartbeat\<close>. The interval is computed before the timer object is
  created and assigned, and the timer is started after: a failed conversion leaves no
  timer, a refused interval leaves a timer that is not running.
\<close>

definition start_heartbeat :: "CIPClient \<Rightarrow> unit result \<times> CIPClient" where
  "start_heartbeat c =
    (if self_heartbeat_timer c \<noteq> None then (Inr (), c)
     else
       (case py_int (times_1000 (cip_heartbeat_interval (self_settings c))) of
          Inl err \<Rightarrow> (Inl err, c)
        | Inr interval \<Rightarrow>
            (let c1 = c\<lparr>self_heartbeat_timer := Some (QTimer None)\<rparr>
             in if c_int interval
                then (Inr (), c1\<lparr>self_heartbeat_timer := Some (QTimer (Some interval))\<rparr>)
                else (Inl OverflowError, c1))))"

text \<open>\<^verbatim>\<open>CIPClient._stop_heartbeat\<close>.\<close>

definition stop_heartbeat :: "CIPClient \<Rightarrow> CIPClient" where
  "stop_heartbeat c =
    (if self_heartbeat_timer c \<noteq> None then c\<lparr>self_heartbeat_timer := None\<rparr> else c)"

text \<open>
  \<^verbatim>\<open>CIPClient._connect_sync\<close>: a missing driver package and any failure of the driver
  both become a \<^verbatim>\<open>CIPConnectionError\<close>.
\<close>

definition connect_sync :: "string \<Rightarrow> real \<Rightarrow> env \<Rightarrow> NSeries result \<times> env" where
  "connect_sync addr timeout e =
    (if \<not> aphyt_installed e then (Inl (CIPConnectionError AphytNotInstalled), e)
     else
       (case driver_call
               (ConnectExplicit addr (if timeout \<noteq> 0 \<and> timeout > 0 then Some timeout else None)) e
        of (Inl err, e1) \<Rightarrow> (Inl (CIPConnectionError (ConnectFailed addr err)), e1)
         | (Inr _, e1) \<Rightarrow> (Inr NSeries, e1)))"

text \<open>
  \<^verbatim>\<open>CIPClient._connect_simulated\<close>. Nothing here catches an exception of
  \<^verbatim>\<open>_start_heartbeat\<close>: it reaches the caller, after the status has been set.
\<close>

definition connect_simulated :: "CIPClient \<Rightarrow> bool result \<times> CIPClient" where
  "connect_simulated c =
    (let c1 = c\<lparr>self_simulated_plc := Some SimulatedPLC_init\<rparr>;
         c2 = c1\<lparr>self_state := (self_state c1)\<lparr>is_simulated := True\<rparr>\<rparr>;
         c3 = update_state c2 SIMULATED
     in case start_heartbeat c3 of
          (Inl err, c4) \<Rightarrow> (Inl err, c4)
        | (Inr _, c4) \<Rightarrow> (Inr True, c4))"

text \<open>
  \<^verbatim>\<open>CIPClient.connect\<close>. The \<^verbatim>\<open>try\<close> spans the connection attempt and everything done
  after it succeeds, the start of the heartbeat included; its \<^verbatim>\<open>except Exception\<close>
  falls through to the simulated connection with whatever the \<^verbatim>\<open>try\<close> had already
  assigned. The logger, the metrics collector and the Qt signals are sinks that take
  what they are given and return.
\<close>

definition connect :: "CIPClient \<Rightarrow> env \<Rightarrow> bool result \<times> CIPClient \<times> env" where
  "connect c e =
    (if is_connected (self_state c) then (Inr True, c, e)
     else
       (let c1 = reload_connection_config c e;
            c2 = update_state c1 CONNECTING
        in if \<not> self_simulated c2 then
             (case connect_sync (self_ip c2) (self_timeout c2) e of
                (Inr plc, e1) \<Rightarrow>
                  (let c3 = c2\<lparr>self_plc := Some plc\<rparr>;
                       c4 = c3\<lparr>self_state := (self_state c3)\<lparr>last_connected := Some (now e1)\<rparr>\<rparr>;
                       c5 = update_state c4 CONNECTED
                   in case start_heartbeat c5 of
                        (Inr _, c6) \<Rightarrow> (Inr True, c6, e1)
                      | (Inl err, c6) \<Rightarrow>
                          (case connect_simulated c6 of (r, c7) \<Rightarrow> (r, c7, e1)))
              | (Inl err, e1) \<Rightarrow>
                  (case connect_simulated c2 of (r, c3) \<Rightarrow> (r, c3, e1)))
           else (case connect_simulated c2 of (r, c3) \<Rightarrow> (r, c3, e))))"

text \<open>
  \<^verbatim>\<open>CIPClient.disconnect\<close>: an exception of \<^verbatim>\<open>close\<close> is logged and dropped, and the
  handle is cleared either way.
\<close>

definition disconnect :: "CIPClient \<Rightarrow> env \<Rightarrow> CIPClient \<times> env" where
  "disconnect c e =
    (let c1 = stop_heartbeat c;
         (c2, e1) = (case self_plc c1 of
                       None \<Rightarrow> (c1, e)
                     | Some plc \<Rightarrow> (c1\<lparr>self_plc := None\<rparr>, snd (driver_call Close e)));
         c3 = c2\<lparr>self_simulated_plc := None\<rparr>;
         c4 = update_state c3 DISCONNECTED
     in (c4, e1))"

text \<open>\<^verbatim>\<open>CIPClient._handle_error\<close>.\<close>

definition handle_error :: "CIPClient \<Rightarrow> string \<Rightarrow> CIPClient" where
  "handle_error c err =
    (let c1 = c\<lparr>self_state := (self_state c)\<lparr>error_count := error_count (self_state c) + 1\<rparr>\<rparr>;
         c2 = c1\<lparr>self_state := (self_state c1)\<lparr>last_error := Some err\<rparr>\<rparr>
     in if error_count (self_state c2) > 5 \<and> status (self_state c2) = CONNECTED
        then update_state c2 DEGRADED
        else c2)"

text \<open>
  \<^verbatim>\<open>CIPClient.read_tag\<close>. Inside the \<^verbatim>\<open>try\<close>, a client with neither a simulated PLC nor
  a driver handle calls a method of \<^verbatim>\<open>None\<close>, which raises like a driver failure does.
\<close>

definition read_tag :: "TagMap \<Rightarrow> CIPClient \<Rightarrow> env \<Rightarrow> string \<Rightarrow> pyval result \<times> CIPClient \<times> env" where
  "read_tag tm c e name =
    (if \<not> is_connected (self_state c) then (Inl (CIPConnectionError NotConnected), c, e)
     else if \<not> is_valid_tag tm name then (Inl (CIPTagError (TagNotAllowed name)), c, e)
     else if \<not> is_readable tm name then (Inl (CIPTagError (TagNotReadable name)), c, e)
     else
       (case get_plc_name tm name of
          Inl err \<Rightarrow> (Inl err, c, e)
        | Inr plc_name \<Rightarrow>
            (case (case self_simulated_plc c of
                     Some sim \<Rightarrow> (Inr (read_variable sim plc_name), e)
                   | None \<Rightarrow>
                       (case self_plc c of
                          None \<Rightarrow> (Inl ''AttributeError'', e)
                        | Some plc \<Rightarrow> driver_call (ReadVariable plc_name) e))
             of (Inr v, e1) \<Rightarrow> (Inr v, c, e1)
              | (Inl err, e1) \<Rightarrow>
                  (Inl (CIPTagError (ReadFailed name err)), handle_error c err, e1))))"

text \<open>\<^verbatim>\<open>CIPClient.write_tag\<close>.\<close>

definition write_tag ::
  "TagMap \<Rightarrow> CIPClient \<Rightarrow> env \<Rightarrow> string \<Rightarrow> pyval \<Rightarrow> bool result \<times> CIPClient \<times> env" where
  "write_tag tm c e name v =
    (if \<not> is_connected (self_state c) then (Inl (CIPConnectionError NotConnected), c, e)
     else if \<not> is_valid_tag tm name then (Inl (CIPTagError (TagNotAllowed name)), c, e)
     else if \<not> is_writable tm name then (Inl (CIPTagError (TagNotWritable name)), c, e)
     else if \<not> validate_value tm name v then (Inl (CIPTagError (InvalidValue name v)), c, e)
     else
       (case get_plc_name tm name of
          Inl err \<Rightarrow> (Inl err, c, e)
        | Inr plc_name \<Rightarrow>
            (case self_simulated_plc c of
               Some sim \<Rightarrow>
                 (Inr True, c\<lparr>self_simulated_plc := Some (write_variable sim plc_name v)\<rparr>, e)
             | None \<Rightarrow>
                 (case (case self_plc c of
                          None \<Rightarrow> (Inl ''AttributeError'', e)
                        | Some plc \<Rightarrow> driver_call (WriteVariable plc_name v) e)
                  of (Inr _, e1) \<Rightarrow> (Inr True, c, e1)
                   | (Inl err, e1) \<Rightarrow>
                       (Inl (CIPTagError (WriteFailed name err)), handle_error c err, e1)))))"

text \<open>
  One \<^verbatim>\<open>await self.write_tag(...)\<close> after another inside a \<^verbatim>\<open>try\<close>: the next statement
  runs only when the previous one returned.
\<close>

definition and_then ::
  "'a result \<times> CIPClient \<times> env \<Rightarrow> (CIPClient \<Rightarrow> env \<Rightarrow> 'b result \<times> CIPClient \<times> env)
     \<Rightarrow> 'b result \<times> CIPClient \<times> env" where
  "and_then r f = (case r of (Inl err, c, e) \<Rightarrow> (Inl err, c, e) | (Inr _, c, e) \<Rightarrow> f c e)"

text \<open>
  \<^verbatim>\<open>CIPClient.write_detection_result\<close>. Python checks no argument type, so every argument
  is any value. \<^verbatim>\<open>except Exception\<close> turns a raised error into the result \<^verbatim>\<open>False\<close>.
\<close>

definition write_detection_result ::
  "TagMap \<Rightarrow> CIPClient \<Rightarrow> env \<Rightarrow> pyval \<Rightarrow> pyval \<Rightarrow> pyval \<Rightarrow> pyval \<Rightarrow> pyval \<Rightarrow> pyval
     \<Rightarrow> bool result \<times> CIPClient \<times> env" where
  "write_detection_result tm c e detected centroid_x centroid_y confidence detection_count
       processing_time =
    (case
       and_then (and_then (and_then (and_then (and_then (and_then
         (write_tag tm c e ''ProductDetected'' detected)
         (\<lambda>c e. write_tag tm c e ''CentroidX'' centroid_x))
         (\<lambda>c e. write_tag tm c e ''CentroidY'' centroid_y))
         (\<lambda>c e. write_tag tm c e ''Confidence'' confidence))
         (\<lambda>c e. write_tag tm c e ''DetectionCount'' detection_count))
         (\<lambda>c e. write_tag tm c e ''ProcessingTime'' processing_time))
         (\<lambda>c e. write_tag tm c e ''VisionDataSent'' (PBool True))
     of (Inr _, c', e') \<Rightarrow> (Inr True, c', e')
      | (Inl err, c', e') \<Rightarrow> (Inr False, c', e'))"

text \<open>
  \<^verbatim>\<open>CIPClient._send_heartbeat\<close>: the write runs as a task of its own, whose outcome nobody
  awaits.
\<close>

definition send_heartbeat :: "TagMap \<Rightarrow> CIPClient \<Rightarrow> env \<Rightarrow> CIPClient \<times> env" where
  "send_heartbeat tm c e =
    (let c1 = c\<lparr>self_heartbeat_value := \<not> self_heartbeat_value c\<rparr>
     in snd (write_tag tm c1 e ''VisionHeartbeat'' (PBool (self_heartbeat_value c1))))"

section \<open>Executions\<close>

text \<open>
  What can happen to a client, one event at a time: a caller invokes one of its methods,
  the heartbeat timer fires, a timer of the simulated PLC fires, or the user saves edited
  settings on the configuration page.
\<close>

datatype event =
    Connect
  | Disconnect
  | ReadTag string
  | WriteTag string pyval
  | WriteDetectionResult pyval pyval pyval pyval pyval pyval
  | HeartbeatTimeout
  | TimerFires nat
  | SaveSettings cip_settings

text \<open>
  The model keeps no clock: any pending timer of the simulated PLC, given by its
  position, may be the next to fire.
\<close>

definition fire_timer :: "nat \<Rightarrow> SimulatedPLC \<Rightarrow> SimulatedPLC" where
  "fire_timer i p =
    (if i < length (timers p) then
       (let p1 = p\<lparr>timers := take i (timers p) @ drop (Suc i) (timers p)\<rparr>
        in case snd (timers p ! i) of
             AutoAck \<Rightarrow> auto_ack p1
           | ResetAck \<Rightarrow> reset_ack p1)
     else p)"

fun step :: "TagMap \<Rightarrow> event \<Rightarrow> CIPClient \<times> env \<Rightarrow> CIPClient \<times> env" where
  "step tm Connect (c, e) = snd (connect c e)"
| "step tm Disconnect (c, e) = disconnect c e"
| "step tm (ReadTag name) (c, e) = snd (read_tag tm c e name)"
| "step tm (WriteTag name v) (c, e) = snd (write_tag tm c e name v)"
| "step tm (WriteDetectionResult d x y cf n t) (c, e) =
     snd (write_detection_result tm c e d x y cf n t)"
| "step tm HeartbeatTimeout (c, e) =
     (case self_heartbeat_timer c of
        Some (QTimer (Some interval)) \<Rightarrow> send_heartbeat tm c e
      | _ \<Rightarrow> (c, e))"
| "step tm (TimerFires i) (c, e) =
     (c\<lparr>self_simulated_plc := map_option (fire_timer i) (self_simulated_plc c)\<rparr>, e)"
| "step tm (SaveSettings s) (c, e) = (c, e\<lparr>get_settings := s\<rparr>)"

fun run :: "TagMap \<Rightarrow> event list \<Rightarrow> CIPClient \<times> env \<Rightarrow> CIPClient \<times> env" where
  "run tm [] s = s"
| "run tm (ev # evs) s = run tm evs (step tm ev s)"


text \<open>
  The configured heartbeat interval converts to an interval that \<^verbatim>\<open>QTimer.start\<close>
  accepts.
\<close>

definition heartbeat_startable :: "cip_settings \<Rightarrow> bool" where
  "heartbeat_startable s =
    (case py_int (times_1000 (cip_heartbeat_interval s)) of
       Inl err \<Rightarrow> False
     | Inr interval \<Rightarrow> c_int interval)"

text \<open>The status \<open>SIMULATED\<close> is backed by the flag \<open>is_simulated\<close>.\<close>

definition flag_agrees :: "CIPClient \<Rightarrow> bool" where
  "flag_agrees c = (status (self_state c) = SIMULATED \<longrightarrow> is_simulated (self_state c))"

section \<open>The sub-writes of a detection result\<close>

text \<open>
  The seven \<^verbatim>\<open>write_tag\<close> calls of \<^verbatim>\<open>write_detection_result\<close>, in the order of the source.
\<close>

definition detection_writes ::
  "pyval \<Rightarrow> pyval \<Rightarrow> pyval \<Rightarrow> pyval \<Rightarrow> pyval \<Rightarrow> pyval \<Rightarrow> (string \<times> pyval) list" where
  "detection_writes detected centroid_x centroid_y confidence detection_count processing_time =
    [(''ProductDetected'', detected),
     (''CentroidX'', centroid_x),
     (''CentroidY'', centroid_y),
     (''Confidence'', confidence),
     (''DetectionCount'', detection_count),
     (''ProcessingTime'', processing_time),
     (''VisionDataSent'', PBool True)]"

fun sub_write ::
  "TagMap \<Rightarrow> CIPClient \<times> env \<Rightarrow> string \<times> pyval \<Rightarrow> bool result \<times> CIPClient \<times> env" where
  "sub_write tm (c, e) (name, v) = write_tag tm c e name v"

text \<open>
  Client and environment after \<^verbatim>\<open>write_tag\<close> has been called for each write of a list
  in turn, and for none else.
\<close>

fun perform :: "TagMap \<Rightarrow> (string \<times> pyval) list \<Rightarrow> CIPClient \<times> env \<Rightarrow> CIPClient \<times> env" where
  "perform tm [] s = s"
| "perform tm (w # ws) s = perform tm ws (snd (sub_write tm s w))"

text \<open>
  The \<open>k\<close>-th write of a list (counted from 0) succeeds when \<^verbatim>\<open>write_tag\<close>, called after
  the first \<open>k\<close> writes have been performed, returns instead of raising.
\<close>

definition succeeds :: "TagMap \<Rightarrow> (string \<times> pyval) list \<Rightarrow> CIPClient \<times> env \<Rightarrow> nat \<Rightarrow> bool" where
  "succeeds tm ws s k = (\<not> isl (fst (sub_write tm (perform tm (take k ws) s) (ws ! k))))"

text \<open>Writing a list of tags one after another, stopping at the first that raises.\<close>

fun write_all ::
  "TagMap \<Rightarrow> (string \<times> pyval) list \<Rightarrow> CIPClient \<times> env \<Rightarrow> bool result \<times> CIPClient \<times> env" where
  "write_all tm [] s = (Inr True, s)"
| "write_all tm (w # ws) s =
     (case sub_write tm s w of
        (Inl err, s') \<Rightarrow> (Inl err, s')
      | (Inr _, s') \<Rightarrow> write_all tm ws s')"

section \<open>Concrete environments\<close>

text \<open>
  A configuration with a real device address and simulation not forced, and a device
  that never answers: every driver call raises.
\<close>

definition plant_settings :: cip_settings where
  "plant_settings =
    \<lparr>cip_ip = ''10.0.0.5'', cip_port = 44818, cip_connection_timeout = 5,
     cip_simulated = False, cip_retry_interval = 2, cip_max_retries = 3,
     cip_heartbeat_interval = Finite 1\<rparr>"

definition unreachable_env :: env where
  "unreachable_env =
    \<lparr>get_settings = plant_settings, now = 0, aphyt_installed = True,
     respond = (\<lambda>h k. Inl ''timed out''), calls = []\<rparr>"

text \<open>
  The same unreachable device under a configuration whose heartbeat interval is
  infinite.
\<close>

definition stalled_env :: env where
  "stalled_env =
    unreachable_env\<lparr>get_settings := plant_settings\<lparr>cip_heartbeat_interval := PosInf\<rparr>\<rparr>"

text \<open>The client after its first \<open>connect\<close> against that device: it runs simulated.\<close>

definition fallback_client :: CIPClient where
  "fallback_client = fst (snd (connect (CIPClient_init unreachable_env) unreachable_env))"

text \<open>
  A device that accepts the connection and then fails on the fourth call made to it,
  which is the third write of a detection result sent right after connecting; and the
  client and environment after connecting to it.
\<close>

definition faulty_env :: env where
  "faulty_env =
    \<lparr>get_settings = plant_settings, now = 0, aphyt_installed = True,
     respond = (\<lambda>h k. if length h = 3 then Inl ''device error'' else Inr PNone),
     calls = []\<rparr>"

definition plant_client :: "CIPClient \<times> env" where
  "plant_client = snd (connect (CIPClient_init faulty_env) faulty_env)"

text \<open>
  A device that refuses the first connection attempt and accepts every later call; and a
  device that accepts connections and writes but fails every read.
\<close>

definition recovering_env :: env where
  "recovering_env =
    \<lparr>get_settings = plant_settings, now = 0, aphyt_installed = True,
     respond = (\<lambda>h k. if h = [] then Inl ''connection refused'' else Inr PNone),
     calls = []\<rparr>"

definition deaf_env :: env where
  "deaf_env =
    \<lparr>get_settings = plant_settings, now = 0, aphyt_installed = True,
     respond = (\<lambda>h k. case k of ReadVariable name \<Rightarrow> Inl ''timeout'' | _ \<Rightarrow> Inr PNone),
     calls = []\<rparr>"

text \<open>
  The client that connected to the second device and then had five reads of the robot
  acknowledgement fail.
\<close>

definition worn_client :: "CIPClient \<times> env" where
  "worn_client =
    run vision_tag_map
      [Connect, ReadTag ''RobotAck'', ReadTag ''RobotAck'', ReadTag ''RobotAck'',
       ReadTag ''RobotAck'', ReadTag ''RobotAck'']
      (CIPClient_init deaf_env, deaf_env)"

text \<open>
  The second device, which accepts connections, under a configuration whose heartbeat
  interval of 3000000 seconds is more milliseconds than the timer takes.
\<close>

definition eager_env :: env where
  "eager_env =
    deaf_env\<lparr>get_settings := plant_settings\<lparr>cip_heartbeat_interval := Finite 3000000\<rparr>\<rparr>"

section \<open>The simulated PLC: reads and the write/read round trip\<close>

text \<open>
  C8. Reading from the simulated PLC never fails: \<open>read_variable\<close> is a total function
  into values (the source has no raising branch); it yields the stored value when the
  physical name is in the register store and the integer 0 when the name is unknown.
\<close>

theorem read_variable_total:
  "(\<forall>v. tags p name = Some v \<longrightarrow> read_variable p name = v) \<and>
   (tags p name = None \<longrightarrow> read_variable p name = PInt 0)"
  by (simp add: read_variable_def dict_get_def)

theorem read_variable_total_witness:
  "tags SimulatedPLC_init ''ROBOT_READY'' = Some (PBool True) \<and>
   read_variable SimulatedPLC_init ''ROBOT_READY'' = PBool True \<and>
   tags SimulatedPLC_init ''NoSuchRegister'' = None \<and>
   read_variable SimulatedPLC_init ''NoSuchRegister'' = PInt 0"
proof -
  have present: "tags SimulatedPLC_init ''ROBOT_READY'' = Some (PBool True)"
    by (simp add: SimulatedPLC_init_def default_tags_def)
  have absent: "tags SimulatedPLC_init ''NoSuchRegister'' = None"
    by (simp add: SimulatedPLC_init_def default_tags_def)
  from read_variable_total [of SimulatedPLC_init "''ROBOT_READY''"] present
  have "read_variable SimulatedPLC_init ''ROBOT_READY'' = PBool True" by simp
  moreover from read_variable_total [of SimulatedPLC_init "''NoSuchRegister''"] absent
  have "read_variable SimulatedPLC_init ''NoSuchRegister'' = PInt 0" by simp
  ultimately show ?thesis using present absent by simp
qed

text \<open>
  C9. Writing a value \<open>v\<close> to a tag of the simulated PLC and reading the same tag back
  at once (no timer fires in between) returns \<open>v\<close>; this holds for every register name,
  the boolean ones included.
\<close>

theorem write_then_read_variable:
  "read_variable (write_variable p name v) name = v"
  by (simp add: read_variable_def write_variable_def dict_get_def Let_def)

section \<open>Starting the heartbeat\<close>

lemma float_overflow_large: "2 ^ 31 * 1000 < float_overflow"
proof -
  define B :: real where "B = 2 ^ 970"
  have B: "1 \<le> B" unfolding B_def by (rule one_le_power) simp
  have small: "(2::real) ^ 31 * 1000 < 2 ^ 54 - 1" by simp
  have le: "(2::real) ^ 54 - 1 \<le> B * (2 ^ 54 - 1)"
    using B by simp
  from small le have "(2::real) ^ 31 * 1000 < B * (2 ^ 54 - 1)"
    by (rule less_le_trans)
  then show ?thesis unfolding float_overflow_def B_def .
qed

lemma heartbeat_one_second: "py_int (times_1000 (Finite 1)) = Inr 1000"
  using float_overflow_large by (simp add: py_int_def times_1000_def)

lemma plant_heartbeat_startable: "heartbeat_startable plant_settings"
  by (simp add: heartbeat_startable_def plant_settings_def heartbeat_one_second c_int_def)

lemma start_heartbeat_cases:
  obtains (started) t where "start_heartbeat c = (Inr (), c\<lparr>self_heartbeat_timer := Some t\<rparr>)"
  | (unconverted) err where "start_heartbeat c = (Inl err, c)"
      "err = OverflowError \<or> err = ValueError"
      "self_heartbeat_timer c = None" "\<not> heartbeat_startable (self_settings c)"
  | (refused) "start_heartbeat c = (Inl OverflowError, c\<lparr>self_heartbeat_timer := Some (QTimer None)\<rparr>)"
      "self_heartbeat_timer c = None" "\<not> heartbeat_startable (self_settings c)"
proof (cases "self_heartbeat_timer c")
  case (Some t)
  then have "start_heartbeat c = (Inr (), c\<lparr>self_heartbeat_timer := Some t\<rparr>)"
    by (simp add: start_heartbeat_def)
  then show ?thesis by (rule started)
next
  case None
  show ?thesis
  proof (cases "py_int (times_1000 (cip_heartbeat_interval (self_settings c)))")
    case (Inl err)
    have "err = OverflowError \<or> err = ValueError"
      using Inl by (auto simp: py_int_def split: pyfloat.splits)
    moreover have "start_heartbeat c = (Inl err, c)"
      using None Inl by (simp add: start_heartbeat_def)
    moreover have "\<not> heartbeat_startable (self_settings c)"
      using Inl by (simp add: heartbeat_startable_def)
    ultimately show ?thesis using None by (intro unconverted)
  next
    case (Inr n)
    show ?thesis
    proof (cases "c_int n")
      case True
      then have "start_heartbeat c = (Inr (), c\<lparr>self_heartbeat_timer := Some (QTimer (Some n))\<rparr>)"
        using None Inr by (simp add: start_heartbeat_def Let_def)
      then show ?thesis by (rule started)
    next
      case False
      then have "start_heartbeat c =
          (Inl OverflowError, c\<lparr>self_heartbeat_timer := Some (QTimer None)\<rparr>)"
        using None Inr by (simp add: start_heartbeat_def Let_def)
      moreover have "\<not> heartbeat_startable (self_settings c)"
        using Inr False by (simp add: heartbeat_startable_def)
      ultimately show ?thesis using None by (intro refused)
    qed
  qed
qed

lemma connect_simulated_result:
  assumes "connect_simulated c = (r, c')"
  shows "status (self_state c') = SIMULATED" "is_simulated (self_state c')"
    "self_simulated_plc c' = Some SimulatedPLC_init" "self_plc c' = self_plc c"
    "error_count (self_state c') = error_count (self_state c)"
    "self_settings c' = self_settings c" "self_ip c' = self_ip c" "self_port c' = self_port c"
    "self_timeout c' = self_timeout c" "self_simulated c' = self_simulated c"
    "ip (self_state c') = ip (self_state c)" "port (self_state c') = port (self_state c)"
    "r = Inr True \<or> r = Inl OverflowError \<or> r = Inl ValueError"
    "self_heartbeat_timer c \<noteq> None \<or> heartbeat_startable (self_settings c) \<Longrightarrow> r = Inr True"
proof -
  define X where "X = update_state
    (c\<lparr>self_simulated_plc := Some SimulatedPLC_init\<rparr>
      \<lparr>self_state := (self_state (c\<lparr>self_simulated_plc := Some SimulatedPLC_init\<rparr>))
         \<lparr>is_simulated := True\<rparr>\<rparr>) SIMULATED"
  have cs: "connect_simulated c =
      (case start_heartbeat X of (Inl err, c4) \<Rightarrow> (Inl err, c4) | (Inr _, c4) \<Rightarrow> (Inr True, c4))"
    by (simp only: connect_simulated_def Let_def X_def)
  have X: "status (self_state X) = SIMULATED" "is_simulated (self_state X)"
    "self_simulated_plc X = Some SimulatedPLC_init" "self_plc X = self_plc c"
    "error_count (self_state X) = error_count (self_state c)"
    "self_settings X = self_settings c" "self_heartbeat_timer X = self_heartbeat_timer c"
    "self_ip X = self_ip c" "self_port X = self_port c"
    "self_timeout X = self_timeout c" "self_simulated X = self_simulated c"
    "ip (self_state X) = ip (self_state c)" "port (self_state X) = port (self_state c)"
    by (simp_all add: X_def update_state_def)
  have all: "status (self_state c') = SIMULATED \<and> is_simulated (self_state c') \<and>
    self_simulated_plc c' = Some SimulatedPLC_init \<and> self_plc c' = self_plc c \<and>
    error_count (self_state c') = error_count (self_state c) \<and>
    self_settings c' = self_settings c \<and> self_ip c' = self_ip c \<and> self_port c' = self_port c \<and>
    self_timeout c' = self_timeout c \<and> self_simulated c' = self_simulated c \<and>
    ip (self_state c') = ip (self_state c) \<and> port (self_state c') = port (self_state c) \<and>
    (r = Inr True \<or> r = Inl OverflowError \<or> r = Inl ValueError) \<and>
    (self_heartbeat_timer c \<noteq> None \<or> heartbeat_startable (self_settings c) \<longrightarrow> r = Inr True)"
  proof (cases X rule: start_heartbeat_cases)
    case (started t)
    with assms cs X show ?thesis by auto
  next
    case (unconverted err)
    with assms cs X show ?thesis by auto
  next
    case refused
    with assms cs X show ?thesis by auto
  qed
  from all show "status (self_state c') = SIMULATED" "is_simulated (self_state c')"
    "self_simulated_plc c' = Some SimulatedPLC_init" "self_plc c' = self_plc c"
    "error_count (self_state c') = error_count (self_state c)"
    "self_settings c' = self_settings c" "self_ip c' = self_ip c" "self_port c' = self_port c"
    "self_timeout c' = self_timeout c" "self_simulated c' = self_simulated c"
    "ip (self_state c') = ip (self_state c)" "port (self_state c') = port (self_state c)"
    "r = Inr True \<or> r = Inl OverflowError \<or> r = Inl ValueError"
    "self_heartbeat_timer c \<noteq> None \<or> heartbeat_startable (self_settings c) \<Longrightarrow> r = Inr True"
    by simp_all
qed

section \<open>Connecting\<close>

lemma connect_sync_calls:
  "calls (snd (connect_sync a t e)) =
     (if aphyt_installed e
      then calls e @ [ConnectExplicit a (if 0 < t then Some t else None)] else calls e)"
  by (auto simp: connect_sync_def driver_call_def split: sum.splits)

lemma connect_post:
  assumes nc: "\<not> is_connected (self_state c)" and res: "connect c e = (r, c', e')"
  shows "self_settings c' = get_settings e \<and>
    self_ip c' = cip_ip (get_settings e) \<and>
    self_port c' = cip_port (get_settings e) \<and>
    self_timeout c' = cip_connection_timeout (get_settings e) \<and>
    self_simulated c' = cip_simulated (get_settings e) \<and>
    ip (self_state c') = cip_ip (get_settings e) \<and>
    port (self_state c') = cip_port (get_settings e) \<and>
    error_count (self_state c') = error_count (self_state c) \<and>
    (status (self_state c') = CONNECTED \<or> status (self_state c') = SIMULATED) \<and>
    (status (self_state c') = SIMULATED \<longrightarrow> is_simulated (self_state c')) \<and>
    (r = Inr True \<or> r = Inl OverflowError \<or> r = Inl ValueError) \<and>
    (self_heartbeat_timer c \<noteq> None \<or> heartbeat_startable (get_settings e) \<longrightarrow> r = Inr True) \<and>
    (cip_simulated (get_settings e) \<longrightarrow>
       e' = e \<and> status (self_state c') = SIMULATED \<and>
       self_simulated_plc c' = Some SimulatedPLC_init) \<and>
    (\<not> cip_simulated (get_settings e) \<longrightarrow>
       e' = snd (connect_sync (cip_ip (get_settings e)) (cip_connection_timeout (get_settings e)) e)) \<and>
    (\<forall>err. \<not> cip_simulated (get_settings e) \<and>
        fst (connect_sync (cip_ip (get_settings e)) (cip_connection_timeout (get_settings e)) e)
          = Inl err
       \<longrightarrow> status (self_state c') = SIMULATED \<and> self_simulated_plc c' = Some SimulatedPLC_init) \<and>
    (\<forall>plc. \<not> cip_simulated (get_settings e) \<and>
        fst (connect_sync (cip_ip (get_settings e)) (cip_connection_timeout (get_settings e)) e)
          = Inr plc \<and>
        (self_heartbeat_timer c \<noteq> None \<or> heartbeat_startable (get_settings e))
       \<longrightarrow> status (self_state c') = CONNECTED \<and> self_plc c' = Some plc)"
proof -
  define c2 where "c2 = update_state (reload_connection_config c e) CONNECTING"
  have c2: "self_settings c2 = get_settings e" "self_ip c2 = cip_ip (get_settings e)"
    "self_port c2 = cip_port (get_settings e)"
    "self_timeout c2 = cip_connection_timeout (get_settings e)"
    "self_simulated c2 = cip_simulated (get_settings e)"
    "ip (self_state c2) = cip_ip (get_settings e)" "port (self_state c2) = cip_port (get_settings e)"
    "error_count (self_state c2) = error_count (self_state c)"
    "self_heartbeat_timer c2 = self_heartbeat_timer c"
    by (simp_all add: c2_def update_state_def reload_connection_config_def Let_def)
  let ?dial = "connect_sync (cip_ip (get_settings e)) (cip_connection_timeout (get_settings e)) e"
  have unfold: "connect c e =
      (if \<not> self_simulated c2 then
         (case connect_sync (self_ip c2) (self_timeout c2) e of
            (Inr plc, e1) \<Rightarrow>
              (case start_heartbeat (update_state
                     (c2\<lparr>self_plc := Some plc\<rparr>
                        \<lparr>self_state := (self_state (c2\<lparr>self_plc := Some plc\<rparr>))
                           \<lparr>last_connected := Some (now e1)\<rparr>\<rparr>) CONNECTED) of
                 (Inr _, c6) \<Rightarrow> (Inr True, c6, e1)
               | (Inl err, c6) \<Rightarrow> (case connect_simulated c6 of (r, c7) \<Rightarrow> (r, c7, e1)))
          | (Inl err, e1) \<Rightarrow> (case connect_simulated c2 of (r, c3) \<Rightarrow> (r, c3, e1)))
       else (case connect_simulated c2 of (r, c3) \<Rightarrow> (r, c3, e)))"
    using nc by (simp only: connect_def Let_def c2_def if_False)
  show ?thesis
  proof (cases "cip_simulated (get_settings e)")
    case True
    obtain r3 c3 where s: "connect_simulated c2 = (r3, c3)" by (cases "connect_simulated c2")
    from unfold True res s have eq: "r = r3" "c' = c3" "e' = e" by (simp_all add: c2)
    from connect_simulated_result [OF s] c2 True show ?thesis by (simp add: eq)
  next
    case False
    obtain d e1 where dial: "?dial = (d, e1)" by (cases ?dial)
    show ?thesis
    proof (cases d)
      case (Inl err)
      obtain r3 c3 where s: "connect_simulated c2 = (r3, c3)" by (cases "connect_simulated c2")
      from unfold False res s dial Inl have eq: "r = r3" "c' = c3" "e' = e1"
        by (simp_all add: c2)
      from connect_simulated_result [OF s] c2 False dial Inl show ?thesis by (simp add: eq)
    next
      case (Inr plc)
      define c5 where "c5 = update_state
                     (c2\<lparr>self_plc := Some plc\<rparr>
                        \<lparr>self_state := (self_state (c2\<lparr>self_plc := Some plc\<rparr>))
                           \<lparr>last_connected := Some (now e1)\<rparr>\<rparr>) CONNECTED"
      have c5: "self_settings c5 = get_settings e" "self_ip c5 = cip_ip (get_settings e)"
        "self_port c5 = cip_port (get_settings e)"
        "self_timeout c5 = cip_connection_timeout (get_settings e)"
        "self_simulated c5 = cip_simulated (get_settings e)"
        "ip (self_state c5) = cip_ip (get_settings e)" "port (self_state c5) = cip_port (get_settings e)"
        "error_count (self_state c5) = error_count (self_state c)"
        "self_heartbeat_timer c5 = self_heartbeat_timer c"
        "status (self_state c5) = CONNECTED" "self_plc c5 = Some plc"
        using c2 by (simp_all add: c5_def update_state_def)
      have step: "connect c e =
          (case start_heartbeat c5 of
             (Inr _, c6) \<Rightarrow> (Inr True, c6, e1)
           | (Inl err, c6) \<Rightarrow> (case connect_simulated c6 of (r, c7) \<Rightarrow> (r, c7, e1)))"
        using unfold False dial Inr by (simp add: c2 c5_def)
      show ?thesis
      proof (cases c5 rule: start_heartbeat_cases)
        case (started t)
        with step res have eq: "r = Inr True" "c' = c5\<lparr>self_heartbeat_timer := Some t\<rparr>" "e' = e1"
          by simp_all
        from c5 False dial Inr show ?thesis by (simp add: eq)
      next
        case (unconverted err)
        obtain r7 c7 where s: "connect_simulated c5 = (r7, c7)" by (cases "connect_simulated c5")
        from step res unconverted(1) s have eq: "r = r7" "c' = c7" "e' = e1" by simp_all
        from connect_simulated_result [OF s] c5 False dial Inr unconverted(3,4)
        show ?thesis by (simp add: eq)
      next
        case refused
        define c6 where "c6 = c5\<lparr>self_heartbeat_timer := Some (QTimer None)\<rparr>"
        obtain r7 c7 where s: "connect_simulated c6 = (r7, c7)" by (cases "connect_simulated c6")
        from step res refused(1) s have eq: "r = r7" "c' = c7" "e' = e1" by (simp_all add: c6_def)
        have c6: "self_settings c6 = get_settings e" "self_ip c6 = cip_ip (get_settings e)"
          "self_port c6 = cip_port (get_settings e)"
          "self_timeout c6 = cip_connection_timeout (get_settings e)"
          "self_simulated c6 = cip_simulated (get_settings e)"
          "ip (self_state c6) = cip_ip (get_settings e)"
          "port (self_state c6) = cip_port (get_settings e)"
          "error_count (self_state c6) = error_count (self_state c)"
          using c5 by (simp_all add: c6_def)
        from connect_simulated_result [OF s] c6 c5 False dial Inr refused(2,3)
        show ?thesis by (simp add: eq)
      qed
    qed
  qed
qed

text \<open>
  C1, as the code has it. A call of \<open>connect\<close> on a client whose status is
  \<open>DISCONNECTED\<close> leaves the status \<open>CONNECTED\<close> or \<open>SIMULATED\<close> for every behaviour
  of the driver (package missing, connection refused or timed out, connection
  established). No failure of the connection attempt reaches the caller: the only errors
  \<open>connect\<close> can raise are the \<^verbatim>\<open>OverflowError\<close> and \<^verbatim>\<open>ValueError\<close> of starting the
  heartbeat timer. It returns \<^verbatim>\<open>True\<close> whenever the heartbeat timer can be started (the
  client already has a timer, or the configured interval converts to one that the timer
  accepts). When the connection attempt raises, the client holds a fresh simulated PLC,
  its status is \<open>SIMULATED\<close> and \<open>is_simulated\<close> is set. When the attempt succeeds and
  the timer can be started, the status is \<open>CONNECTED\<close>.
\<close>

theorem connect_always_connects:
  "status (self_state c) = DISCONNECTED \<Longrightarrow>
   (case connect c e of (r, c', e') \<Rightarrow>
      (status (self_state c') = CONNECTED \<or> status (self_state c') = SIMULATED) \<and>
      (r = Inr True \<or> r = Inl OverflowError \<or> r = Inl ValueError) \<and>
      (self_heartbeat_timer c \<noteq> None \<or> heartbeat_startable (get_settings e) \<longrightarrow> r = Inr True) \<and>
      (\<forall>err e1. \<not> cip_simulated (get_settings e) \<and>
                connect_sync (cip_ip (get_settings e)) (cip_connection_timeout (get_settings e)) e
                   = (Inl err, e1)
         \<longrightarrow> status (self_state c') = SIMULATED \<and> is_simulated (self_state c') \<and>
             self_simulated_plc c' = Some SimulatedPLC_init \<and> e' = e1) \<and>
      (\<forall>plc e1. \<not> cip_simulated (get_settings e) \<and>
                connect_sync (cip_ip (get_settings e)) (cip_connection_timeout (get_settings e)) e
                   = (Inr plc, e1) \<and>
                (self_heartbeat_timer c \<noteq> None \<or> heartbeat_startable (get_settings e))
         \<longrightarrow> status (self_state c') = CONNECTED \<and> self_plc c' = Some plc \<and> e' = e1))"
proof -
  assume d: "status (self_state c) = DISCONNECTED"
  then have nc: "\<not> is_connected (self_state c)" by (simp add: is_connected_def)
  obtain r c' e' where res: "connect c e = (r, c', e')" by (cases "connect c e")
  from connect_post [OF nc res] show ?thesis
    by (simp add: res)
qed

theorem connect_always_connects_witness:
  "status (self_state (CIPClient_init unreachable_env)) = DISCONNECTED \<and>
   heartbeat_startable (get_settings unreachable_env) \<and>
   fst (connect (CIPClient_init unreachable_env) unreachable_env) = Inr True \<and>
   status (self_state (fst (snd (connect (CIPClient_init unreachable_env) unreachable_env)))) = SIMULATED \<and>
   is_simulated (self_state (fst (snd (connect (CIPClient_init unreachable_env) unreachable_env))))"
proof -
  have d: "status (self_state (CIPClient_init unreachable_env)) = DISCONNECTED"
    by (simp add: CIPClient_init_def Let_def)
  have n: "\<not> cip_simulated (get_settings unreachable_env)"
    by (simp add: unreachable_env_def plant_settings_def)
  have h: "heartbeat_startable (get_settings unreachable_env)"
    by (simp add: unreachable_env_def plant_heartbeat_startable)
  have f: "connect_sync (cip_ip (get_settings unreachable_env))
             (cip_connection_timeout (get_settings unreachable_env)) unreachable_env
           = (Inl (CIPConnectionError (ConnectFailed ''10.0.0.5'' ''timed out'')),
              unreachable_env\<lparr>calls := [ConnectExplicit ''10.0.0.5'' (Some 5)]\<rparr>)"
    by (simp add: connect_sync_def driver_call_def unreachable_env_def plant_settings_def)
  from connect_always_connects [OF d, of unreachable_env] f n h
  show ?thesis using d by (auto split: prod.splits)
qed

text \<open>
  C1, as stated, fails where the heartbeat timer cannot be started. With an infinite
  heartbeat interval configured and a device that times out, \<open>connect\<close> on a fresh
  client falls back to simulation and then raises the \<^verbatim>\<open>OverflowError\<close> of
  \<^verbatim>\<open>int(heartbeat_interval * 1000)\<close>, which nothing on the simulated path catches. The
  status is then \<open>SIMULATED\<close>.
\<close>

theorem connect_raises_heartbeat_error:
  "status (self_state (CIPClient_init stalled_env)) = DISCONNECTED \<and>
   fst (connect (CIPClient_init stalled_env) stalled_env) = Inl OverflowError \<and>
   status (self_state (fst (snd (connect (CIPClient_init stalled_env) stalled_env)))) = SIMULATED"
  by (simp add: connect_def CIPClient_init_def Let_def is_connected_def
        reload_connection_config_def update_state_def connect_sync_def driver_call_def
        connect_simulated_def start_heartbeat_def py_int_def times_1000_def
        stalled_env_def unreachable_env_def plant_settings_def)

text \<open>
  The \<^verbatim>\<open>try\<close> of \<open>connect\<close> also covers the start of the heartbeat. When the device
  accepts the connection and the timer then refuses its interval, \<open>connect\<close> falls back
  to simulation with the driver handle still in place; the timer object exists by then,
  so the second start returns at once and \<open>connect\<close> returns \<^verbatim>\<open>True\<close>.
\<close>

lemma connect_falls_back_after_connecting:
  "fst (connect (CIPClient_init eager_env) eager_env) = Inr True \<and>
   status (self_state (fst (snd (connect (CIPClient_init eager_env) eager_env)))) = SIMULATED \<and>
   self_plc (fst (snd (connect (CIPClient_init eager_env) eager_env))) = Some NSeries \<and>
   self_simulated_plc (fst (snd (connect (CIPClient_init eager_env) eager_env)))
     = Some SimulatedPLC_init \<and>
   self_heartbeat_timer (fst (snd (connect (CIPClient_init eager_env) eager_env)))
     = Some (QTimer None)"
proof -
  have conv: "py_int (times_1000 (Finite 3000000)) = Inr 3000000000"
    using float_overflow_large by (simp add: py_int_def times_1000_def)
  show ?thesis
    by (simp add: connect_def CIPClient_init_def Let_def is_connected_def
          reload_connection_config_def update_state_def connect_sync_def driver_call_def
          connect_simulated_def start_heartbeat_def conv c_int_def
          eager_env_def deaf_env_def plant_settings_def)
qed

lemma reload_drops_stale:
  "reload_connection_config
     (c\<lparr>self_settings := s0, self_ip := a0, self_port := p0, self_timeout := t0,
        self_simulated := b0, self_state := (self_state c)\<lparr>ip := a1, port := p1\<rparr>\<rparr>) e
   = reload_connection_config c e"
  by (simp add: reload_connection_config_def Let_def)

text \<open>
  C6. A \<open>connect\<close> on a client that is not connected takes host address, port, timeout
  and simulation flag from the configuration as it is at that moment: afterwards the
  client's copies and the address in its connection state equal the configured values,
  the only driver call made is a connection attempt to the configured address with the
  configured timeout (none at all when simulation is configured or the driver package is
  missing), and whatever address, port, timeout or flag the client held before has no
  influence on the outcome.
\<close>

theorem connect_reloads_configuration:
  "\<not> is_connected (self_state c) \<Longrightarrow>
   (case connect c e of (r, c', e') \<Rightarrow>
      self_settings c' = get_settings e \<and>
      self_ip c' = cip_ip (get_settings e) \<and>
      self_port c' = cip_port (get_settings e) \<and>
      self_timeout c' = cip_connection_timeout (get_settings e) \<and>
      self_simulated c' = cip_simulated (get_settings e) \<and>
      ip (self_state c') = cip_ip (get_settings e) \<and>
      port (self_state c') = cip_port (get_settings e) \<and>
      (\<not> cip_simulated (get_settings e) \<and> aphyt_installed e \<longrightarrow>
         calls e' = calls e @
           [ConnectExplicit (cip_ip (get_settings e))
              (if 0 < cip_connection_timeout (get_settings e)
               then Some (cip_connection_timeout (get_settings e)) else None)]) \<and>
      (cip_simulated (get_settings e) \<or> \<not> aphyt_installed e \<longrightarrow> calls e' = calls e)) \<and>
   connect (c\<lparr>self_settings := s0, self_ip := a0, self_port := p0, self_timeout := t0,
              self_simulated := b0,
              self_state := (self_state c)\<lparr>ip := a1, port := p1\<rparr>\<rparr>) e
     = connect c e"
proof -
  assume nc: "\<not> is_connected (self_state c)"
  obtain r c' e' where res: "connect c e = (r, c', e')" by (cases "connect c e")
  have stale: "connect (c\<lparr>self_settings := s0, self_ip := a0, self_port := p0, self_timeout := t0,
              self_simulated := b0,
              self_state := (self_state c)\<lparr>ip := a1, port := p1\<rparr>\<rparr>) e = connect c e"
    unfolding connect_def reload_drops_stale using nc by (simp add: is_connected_def)
  from connect_post [OF nc res]
    connect_sync_calls [of "cip_ip (get_settings e)" "cip_connection_timeout (get_settings e)" e]
  show ?thesis
    unfolding stale by (auto simp: res)
qed

theorem connect_reloads_configuration_witness:
  "\<not> is_connected (self_state (CIPClient_init unreachable_env)) \<and>
   self_ip (fst (snd (connect ((CIPClient_init unreachable_env)
                                  \<lparr>self_ip := ''192.168.1.99'', self_port := 9999\<rparr>)
                               unreachable_env))) = ''10.0.0.5'' \<and>
   self_port (fst (snd (connect ((CIPClient_init unreachable_env)
                                  \<lparr>self_ip := ''192.168.1.99'', self_port := 9999\<rparr>)
                               unreachable_env))) = 44818 \<and>
   calls (snd (snd (connect ((CIPClient_init unreachable_env)
                                  \<lparr>self_ip := ''192.168.1.99'', self_port := 9999\<rparr>)
                               unreachable_env))) = [ConnectExplicit ''10.0.0.5'' (Some 5)]"
proof -
  let ?c = "CIPClient_init unreachable_env"
  let ?stale = "?c\<lparr>self_ip := ''192.168.1.99'', self_port := 9999\<rparr>"
  have d: "\<not> is_connected (self_state ?c)"
    by (simp add: CIPClient_init_def Let_def is_connected_def)
  have same: "?c\<lparr>self_settings := self_settings ?c, self_ip := ''192.168.1.99'',
                 self_port := 9999, self_timeout := self_timeout ?c,
                 self_simulated := self_simulated ?c,
                 self_state := (self_state ?c)\<lparr>ip := ip (self_state ?c),
                                               port := port (self_state ?c)\<rparr>\<rparr> = ?stale"
    by simp
  have env: "get_settings unreachable_env = plant_settings" "aphyt_installed unreachable_env"
    "calls unreachable_env = []"
    by (simp_all add: unreachable_env_def)
  from connect_reloads_configuration [where c = "?c" and e = unreachable_env
      and ?s0.0 = "self_settings ?c" and ?a0.0 = "''192.168.1.99''" and ?p0.0 = 9999
      and ?t0.0 = "self_timeout ?c" and ?b0.0 = "self_simulated ?c"
      and ?a1.0 = "ip (self_state ?c)" and ?p1.0 = "port (self_state ?c)", OF d]
  show ?thesis
    unfolding same using d
    by (auto simp: env plant_settings_def split: prod.splits)
qed

section \<open>Validation in the read and write paths\<close>

lemma fallback_client_connected: "is_connected (self_state fallback_client)"
  by (simp add: fallback_client_def connect_def CIPClient_init_def Let_def is_connected_def
        reload_connection_config_def update_state_def connect_sync_def driver_call_def
        unreachable_env_def plant_settings_def connect_simulated_def start_heartbeat_def
        heartbeat_one_second c_int_def)

lemma vision_tag_map_simps:
  "\<not> is_valid_tag vision_tag_map ''NoSuchTag''"
  "is_valid_tag vision_tag_map ''RobotAck''"
  "\<not> is_writable vision_tag_map ''RobotAck''"
  "is_valid_tag vision_tag_map ''ProductDetected''"
  "\<not> is_readable vision_tag_map ''ProductDetected''"
  "is_valid_tag vision_tag_map ''Confidence''"
  "is_writable vision_tag_map ''Confidence''"
  "\<not> validate_value vision_tag_map ''Confidence'' (PFloat 2)"
  by (simp_all add: vision_tag_map_def TagMap_of_def descriptor_def vision_tags_def)

text \<open>
  C5, as the code has it. On a connected client (status \<open>CONNECTED\<close>, \<open>SIMULATED\<close> or
  \<open>DEGRADED\<close>), a \<open>read_tag\<close> or \<open>write_tag\<close> whose logical name is unknown, whose
  direction forbids the access or (for a write) whose value fails validation raises a
  \<^verbatim>\<open>CIPTagError\<close> and leaves client and environment as they were: no driver call, no
  change of the simulated PLC, no change of \<open>error_count\<close>. The checks run in the order
  existence, direction, value: an unknown name is reported whatever the other checks
  say, and a forbidden direction whatever the value is. On a client that is not
  connected the connection check comes first: every \<open>read_tag\<close> and \<open>write_tag\<close> raises
  the not-connected \<^verbatim>\<open>CIPConnectionError\<close>, again with client and environment unchanged.
\<close>

theorem validation_precedes_backend:
  "(is_connected (self_state c) \<longrightarrow>
     (\<not> is_valid_tag tm name \<longrightarrow>
        read_tag tm c e name = (Inl (CIPTagError (TagNotAllowed name)), c, e) \<and>
        write_tag tm c e name v = (Inl (CIPTagError (TagNotAllowed name)), c, e)) \<and>
     (is_valid_tag tm name \<and> \<not> is_readable tm name \<longrightarrow>
        read_tag tm c e name = (Inl (CIPTagError (TagNotReadable name)), c, e)) \<and>
     (is_valid_tag tm name \<and> \<not> is_writable tm name \<longrightarrow>
        write_tag tm c e name v = (Inl (CIPTagError (TagNotWritable name)), c, e)) \<and>
     (is_valid_tag tm name \<and> is_writable tm name \<and> \<not> validate_value tm name v \<longrightarrow>
        write_tag tm c e name v = (Inl (CIPTagError (InvalidValue name v)), c, e))) \<and>
   (\<not> is_connected (self_state c) \<longrightarrow>
      read_tag tm c e name = (Inl (CIPConnectionError NotConnected), c, e) \<and>
      write_tag tm c e name v = (Inl (CIPConnectionError NotConnected), c, e))"
  by (simp add: read_tag_def write_tag_def)

theorem validation_precedes_backend_witness:
  "is_connected (self_state fallback_client) \<and>
   read_tag vision_tag_map fallback_client unreachable_env ''NoSuchTag''
     = (Inl (CIPTagError (TagNotAllowed ''NoSuchTag'')), fallback_client, unreachable_env) \<and>
   read_tag vision_tag_map fallback_client unreachable_env ''ProductDetected''
     = (Inl (CIPTagError (TagNotReadable ''ProductDetected'')), fallback_client, unreachable_env) \<and>
   write_tag vision_tag_map fallback_client unreachable_env ''RobotAck'' (PBool True)
     = (Inl (CIPTagError (TagNotWritable ''RobotAck'')), fallback_client, unreachable_env) \<and>
   write_tag vision_tag_map fallback_client unreachable_env ''Confidence'' (PFloat 2)
     = (Inl (CIPTagError (InvalidValue ''Confidence'' (PFloat 2))), fallback_client, unreachable_env) \<and>
   \<not> is_connected (self_state (CIPClient_init unreachable_env)) \<and>
   write_tag vision_tag_map (CIPClient_init unreachable_env) unreachable_env
       ''Confidence'' (PFloat 2)
     = (Inl (CIPConnectionError NotConnected), CIPClient_init unreachable_env, unreachable_env)"
proof -
  have down: "\<not> is_connected (self_state (CIPClient_init unreachable_env))"
    by (simp add: CIPClient_init_def Let_def is_connected_def)
  from validation_precedes_backend [where c = fallback_client and tm = vision_tag_map
      and name = "''NoSuchTag''" and e = unreachable_env and v = PNone]
    validation_precedes_backend [where c = fallback_client and tm = vision_tag_map
      and name = "''ProductDetected''" and e = unreachable_env and v = PNone]
    validation_precedes_backend [where c = fallback_client and tm = vision_tag_map
      and name = "''RobotAck''" and e = unreachable_env and v = "PBool True"]
    validation_precedes_backend [where c = fallback_client and tm = vision_tag_map
      and name = "''Confidence''" and e = unreachable_env and v = "PFloat 2"]
    validation_precedes_backend [where c = "CIPClient_init unreachable_env"
      and tm = vision_tag_map and name = "''Confidence''" and e = unreachable_env
      and v = "PFloat 2"]
    fallback_client_connected down
  show ?thesis by (simp add: vision_tag_map_simps)
qed

text \<open>
  C5, as stated, fails on a client that is not connected: the connection check comes
  before the tag checks, so a read of an unknown tag raises \<^verbatim>\<open>CIPConnectionError\<close>, which
  is not a \<^verbatim>\<open>CIPTagError\<close>.
\<close>

theorem not_connected_precedes_validation:
  "read_tag vision_tag_map (CIPClient_init unreachable_env) unreachable_env ''NoSuchTag''
     = (Inl (CIPConnectionError NotConnected), CIPClient_init unreachable_env, unreachable_env) \<and>
   \<not> is_valid_tag vision_tag_map ''NoSuchTag'' \<and>
   \<not> is_tag_error (CIPConnectionError NotConnected)"
  by (simp add: read_tag_def vision_tag_map_def TagMap_of_def descriptor_def vision_tags_def
        CIPClient_init_def Let_def is_connected_def)

section \<open>Writing a detection result\<close>

lemma write_tag_returns_True:
  "write_tag tm c e name v = (Inr b, c', e') \<Longrightarrow> b"
  by (auto simp: write_tag_def split: if_splits sum.splits option.splits prod.splits)

lemma write_all_snoc:
  "write_all tm (ws @ [(name, v)]) s =
     and_then (write_all tm ws s) (\<lambda>c e. write_tag tm c e name v)"
proof (induction ws arbitrary: s)
  case Nil
  obtain c e where s: "s = (c, e)" by (cases s)
  show ?case
    by (cases "write_tag tm c e name v")
       (auto simp: s and_then_def split: sum.splits dest: write_tag_returns_True)
next
  case (Cons w ws)
  show ?case
    by (cases "sub_write tm s w") (auto simp: Cons.IH and_then_def split: sum.splits)
qed

lemma write_all_single:
  "write_tag tm c e name v = write_all tm [(name, v)] (c, e)"
  by (cases "write_tag tm c e name v")
     (auto split: sum.splits dest: write_tag_returns_True)

lemma write_detection_result_write_all:
  "write_detection_result tm c e d x y cf n t =
     (case write_all tm (detection_writes d x y cf n t) (c, e) of
        (Inr _, s) \<Rightarrow> (Inr True, s)
      | (Inl err, s) \<Rightarrow> (Inr False, s))"
proof -
  have "detection_writes d x y cf n t =
      ((((([(''ProductDetected'', d)] @ [(''CentroidX'', x)]) @ [(''CentroidY'', y)])
        @ [(''Confidence'', cf)]) @ [(''DetectionCount'', n)]) @ [(''ProcessingTime'', t)])
        @ [(''VisionDataSent'', PBool True)]"
    by (simp add: detection_writes_def)
  then show ?thesis
    unfolding write_detection_result_def
    by (simp only: write_all_snoc write_all_single [symmetric]) (simp split: sum.splits prod.splits)
qed

lemma not_isl_fst: "\<not> isl (fst r) \<Longrightarrow> \<exists>b s. r = (Inr b, s)"
  by (cases r; cases "fst r") auto

lemma isl_fst: "isl (fst r) \<Longrightarrow> \<exists>err s. r = (Inl err, s)"
  by (cases r; cases "fst r") auto

lemma succeeds_Cons_0:
  "succeeds tm (w # ws) s 0 = (\<not> isl (fst (sub_write tm s w)))"
  by (simp add: succeeds_def)

lemma succeeds_Cons_Suc:
  "succeeds tm (w # ws) s (Suc k) = succeeds tm ws (snd (sub_write tm s w)) k"
  by (simp add: succeeds_def)

lemma write_all_success:
  "(\<forall>k<length ws. succeeds tm ws s k) \<Longrightarrow> write_all tm ws s = (Inr True, perform tm ws s)"
proof (induction ws arbitrary: s)
  case Nil
  show ?case by simp
next
  case (Cons w ws)
  from Cons.prems have first: "\<not> isl (fst (sub_write tm s w))"
    using succeeds_Cons_0 [of tm w ws s] by auto
  from Cons.prems have rest: "\<forall>k<length ws. succeeds tm ws (snd (sub_write tm s w)) k"
    using succeeds_Cons_Suc [of tm w ws s] by auto
  from first obtain b s' where r: "sub_write tm s w = (Inr b, s')"
    using not_isl_fst by blast
  with Cons.IH [OF rest] show ?case by simp
qed

lemma write_all_failure:
  "k < length ws \<Longrightarrow> (\<forall>j<k. succeeds tm ws s j) \<Longrightarrow> \<not> succeeds tm ws s k \<Longrightarrow>
   \<exists>err. write_all tm ws s = (Inl err, perform tm (take (Suc k) ws) s)"
proof (induction ws arbitrary: s k)
  case Nil
  then show ?case by simp
next
  case (Cons w ws)
  show ?case
  proof (cases k)
    case 0
    with Cons.prems(3) have "isl (fst (sub_write tm s w))"
      by (simp add: succeeds_Cons_0)
    then obtain err s' where "sub_write tm s w = (Inl err, s')"
      using isl_fst by blast
    with 0 show ?thesis by simp
  next
    case (Suc k')
    from Cons.prems(2) Suc have first: "\<not> isl (fst (sub_write tm s w))"
      using succeeds_Cons_0 [of tm w ws s] by auto
    then obtain b s' where r: "sub_write tm s w = (Inr b, s')"
      using not_isl_fst by blast
    have a: "k' < length ws" using Cons.prems(1) Suc by simp
    have b: "\<forall>j<k'. succeeds tm ws s' j"
    proof (intro allI impI)
      fix j assume "j < k'"
      then have "succeeds tm (w # ws) s (Suc j)" using Cons.prems(2) Suc by simp
      then show "succeeds tm ws s' j" by (simp add: succeeds_Cons_Suc r)
    qed
    have c: "\<not> succeeds tm ws s' k'"
      using Cons.prems(3) Suc by (simp add: succeeds_Cons_Suc r)
    from Cons.IH [OF a b c] r Suc show ?thesis by simp
  qed
qed

lemma first_failure:
  "\<not> (\<forall>k<n. P k) \<Longrightarrow> \<exists>k<n. (\<forall>j<k. P j) \<and> \<not> P (k::nat)"
proof -
  assume "\<not> (\<forall>k<n. P k)"
  then obtain m where m: "m < n \<and> \<not> P m" by auto
  define k where "k = (LEAST i. i < n \<and> \<not> P i)"
  have k: "k < n \<and> \<not> P k" unfolding k_def by (rule LeastI [of _ m]) (rule m)
  have "\<forall>j<k. P j"
  proof (intro allI impI)
    fix j assume "j < k"
    then have "\<not> (j < n \<and> \<not> P j)" unfolding k_def by (rule not_less_Least)
    with \<open>j < k\<close> k show "P j" by simp
  qed
  with k show ?thesis by blast
qed

lemmas client_defs = connect_def CIPClient_init_def Let_def is_connected_def
  reload_connection_config_def update_state_def connect_sync_def driver_call_def
  connect_simulated_def start_heartbeat_def heartbeat_one_second c_int_def handle_error_def

lemmas tag_defs = vision_tag_map_def TagMap_of_def descriptor_def vision_tags_def

lemma plant_client_eq:
  "plant_client =
    (\<lparr>self_settings = plant_settings, self_ip = ''10.0.0.5'', self_port = 44818,
      self_timeout = 5, self_simulated = False, self_plc = Some NSeries,
      self_simulated_plc = None,
      self_state = \<lparr>status = CONNECTED, ip = ''10.0.0.5'', port = 44818,
                     is_simulated = False, last_connected = Some 0, last_error = None,
                     error_count = 0\<rparr>,
      self_heartbeat_timer = Some (QTimer (Some 1000)), self_heartbeat_value = False,
      self_reconnect_attempts = 0, self_max_reconnect_attempts = 3\<rparr>,
     faulty_env\<lparr>calls := [ConnectExplicit ''10.0.0.5'' (Some 5)]\<rparr>)"
  by (simp add: plant_client_def client_defs faulty_env_def plant_settings_def)

lemma plant_first_write:
  "sub_write vision_tag_map plant_client (''ProductDetected'', PBool True) =
     (Inr True, fst plant_client,
      faulty_env\<lparr>calls := [ConnectExplicit ''10.0.0.5'' (Some 5),
                            WriteVariable ''PRODUCT_DETECTED'' (PBool True)]\<rparr>)"
  by (simp add: plant_client_eq write_tag_def tag_defs client_defs faulty_env_def)

lemma plant_second_write:
  "sub_write vision_tag_map
     (fst plant_client,
      faulty_env\<lparr>calls := [ConnectExplicit ''10.0.0.5'' (Some 5),
                            WriteVariable ''PRODUCT_DETECTED'' (PBool True)]\<rparr>)
     (''CentroidX'', PFloat 1) =
     (Inr True, fst plant_client,
      faulty_env\<lparr>calls := [ConnectExplicit ''10.0.0.5'' (Some 5),
                            WriteVariable ''PRODUCT_DETECTED'' (PBool True),
                            WriteVariable ''CENTROID_X'' (PFloat 1)]\<rparr>)"
  by (simp add: plant_client_eq write_tag_def tag_defs client_defs faulty_env_def)

lemma plant_third_write:
  "sub_write vision_tag_map
     (fst plant_client,
      faulty_env\<lparr>calls := [ConnectExplicit ''10.0.0.5'' (Some 5),
                            WriteVariable ''PRODUCT_DETECTED'' (PBool True),
                            WriteVariable ''CENTROID_X'' (PFloat 1)]\<rparr>)
     (''CentroidY'', PFloat 2) =
     (Inl (CIPTagError (WriteFailed ''CentroidY'' ''device error'')),
      handle_error (fst plant_client) ''device error'',
      faulty_env\<lparr>calls := [ConnectExplicit ''10.0.0.5'' (Some 5),
                            WriteVariable ''PRODUCT_DETECTED'' (PBool True),
                            WriteVariable ''CENTROID_X'' (PFloat 1),
                            WriteVariable ''CENTROID_Y'' (PFloat 2)]\<rparr>)"
  by (simp add: plant_client_eq write_tag_def tag_defs client_defs faulty_env_def)


lemma write_tag_calls_le:
  "length (calls (snd (snd (write_tag tm c e name v)))) \<le> Suc (length (calls e))"
  by (auto simp: write_tag_def driver_call_def split: sum.splits option.splits prod.splits)

lemma perform_calls_le:
  "length (calls (snd (perform tm ws s))) \<le> length (calls (snd s)) + length ws"
proof (induction ws arbitrary: s)
  case Nil
  show ?case by simp
next
  case (Cons w ws)
  obtain c e where s: "s = (c, e)" by (cases s)
  obtain name v where w: "w = (name, v)" by (cases w)
  have "length (calls (snd (snd (sub_write tm s w)))) \<le> Suc (length (calls (snd s)))"
    using write_tag_calls_le [of tm c e name v] by (simp add: s w)
  with Cons.IH [of "snd (sub_write tm s w)"] show ?case by simp
qed

lemma perform_take_Suc:
  "k < length ws \<Longrightarrow>
   perform tm (take (Suc k) ws) s = snd (sub_write tm (perform tm (take k ws) s) (ws ! k))"
proof (induction ws arbitrary: s k)
  case Nil
  then show ?case by simp
next
  case (Cons w ws)
  show ?case
  proof (cases k)
    case 0
    then show ?thesis by simp
  next
    case (Suc k')
    with Cons.prems have "k' < length ws" by simp
    from Cons.IH [OF this] Suc show ?thesis by simp
  qed
qed

lemma detection_writes_length: "length (detection_writes d x y cf n t) = 7"
  by (simp add: detection_writes_def)

text \<open>
  C4. \<open>write_detection_result\<close> calls \<open>write_tag\<close> for the detection flag, centroid X,
  centroid Y, confidence, detection count, processing time and then the data-sent flag,
  in this order. It returns \<^verbatim>\<open>True\<close> exactly when every one of the seven writes succeeds,
  and \<^verbatim>\<open>False\<close> otherwise. When all succeed, client and environment are what performing
  the seven writes leaves. When write number \<open>k\<close> (from 0) is the first to fail, client and
  environment are what performing the writes up to and including \<open>k\<close> leaves: no later
  write is attempted, and the driver has received at most \<open>k + 1\<close> further calls.
\<close>

theorem write_detection_result_sequence:
  "(let ws = detection_writes d x y cf n t;
        r = write_detection_result tm c e d x y cf n t
    in ws = [(''ProductDetected'', d), (''CentroidX'', x), (''CentroidY'', y),
             (''Confidence'', cf), (''DetectionCount'', n), (''ProcessingTime'', t),
             (''VisionDataSent'', PBool True)] \<and>
       (fst r = Inr True \<longleftrightarrow> (\<forall>k<7. succeeds tm ws (c, e) k)) \<and>
       (fst r = Inr False \<longleftrightarrow> \<not> (\<forall>k<7. succeeds tm ws (c, e) k)) \<and>
       ((\<forall>k<7. succeeds tm ws (c, e) k) \<longrightarrow> snd r = perform tm ws (c, e)) \<and>
       (\<forall>k<7. (\<forall>j<k. succeeds tm ws (c, e) j) \<and> \<not> succeeds tm ws (c, e) k \<longrightarrow>
           fst r = Inr False \<and>
           snd r = perform tm (take (Suc k) ws) (c, e) \<and>
           length (calls (snd (snd r))) \<le> length (calls e) + Suc k))"
proof -
  define ws where "ws = detection_writes d x y cf n t"
  define r where "r = write_detection_result tm c e d x y cf n t"
  have len: "length ws = 7" by (simp add: ws_def detection_writes_length)
  have r: "r = (case write_all tm ws (c, e) of
                  (Inr _, s) \<Rightarrow> (Inr True, s) | (Inl err, s) \<Rightarrow> (Inr False, s))"
    by (simp add: r_def ws_def write_detection_result_write_all)
  have all: "snd r = perform tm ws (c, e) \<and> fst r = Inr True"
    if "\<forall>k<7. succeeds tm ws (c, e) k"
    using write_all_success [of ws tm "(c, e)"] that by (simp add: r len)
  have part: "fst r = Inr False \<and> snd r = perform tm (take (Suc k) ws) (c, e) \<and>
      length (calls (snd (snd r))) \<le> length (calls e) + Suc k"
    if "k < 7" "\<forall>j<k. succeeds tm ws (c, e) j" "\<not> succeeds tm ws (c, e) k" for k
  proof -
    from write_all_failure [of k ws tm "(c, e)"] that len
    obtain err where w: "write_all tm ws (c, e) = (Inl err, perform tm (take (Suc k) ws) (c, e))"
      by auto
    have "length (calls (snd (perform tm (take (Suc k) ws) (c, e)))) \<le> length (calls e) + Suc k"
      using perform_calls_le [of tm "take (Suc k) ws" "(c, e)"] that(1) len by simp
    with w show ?thesis by (simp add: r)
  qed
  have none: "fst r = Inr False" if "\<not> (\<forall>k<7. succeeds tm ws (c, e) k)"
  proof -
    from first_failure [OF that] obtain k where
      "k < 7" "\<forall>j<k. succeeds tm ws (c, e) j" "\<not> succeeds tm ws (c, e) k" by blast
    from part [OF this] show ?thesis by simp
  qed
  have "ws = [(''ProductDetected'', d), (''CentroidX'', x), (''CentroidY'', y),
             (''Confidence'', cf), (''DetectionCount'', n), (''ProcessingTime'', t),
             (''VisionDataSent'', PBool True)]"
    by (simp add: ws_def detection_writes_def)
  moreover have "fst r = Inr True \<longleftrightarrow> (\<forall>k<7. succeeds tm ws (c, e) k)"
    using all none by (cases "\<forall>k<7. succeeds tm ws (c, e) k") simp_all
  moreover have "fst r = Inr False \<longleftrightarrow> \<not> (\<forall>k<7. succeeds tm ws (c, e) k)"
    using all none by (cases "\<forall>k<7. succeeds tm ws (c, e) k") simp_all
  moreover have "(\<forall>k<7. succeeds tm ws (c, e) k) \<longrightarrow> snd r = perform tm ws (c, e)"
    using all by simp
  moreover have "\<forall>k<7. (\<forall>j<k. succeeds tm ws (c, e) j) \<and> \<not> succeeds tm ws (c, e) k \<longrightarrow>
           fst r = Inr False \<and>
           snd r = perform tm (take (Suc k) ws) (c, e) \<and>
           length (calls (snd (snd r))) \<le> length (calls e) + Suc k"
    using part by blast
  ultimately show ?thesis
    unfolding Let_def ws_def [symmetric] r_def [symmetric] by blast
qed


theorem write_detection_result_sequence_witness:
  "succeeds vision_tag_map
     (detection_writes (PBool True) (PFloat 1) (PFloat 2) (PFloat (1 / 2)) (PInt 1) (PFloat 12))
     plant_client 0 \<and>
   succeeds vision_tag_map
     (detection_writes (PBool True) (PFloat 1) (PFloat 2) (PFloat (1 / 2)) (PInt 1) (PFloat 12))
     plant_client 1 \<and>
   \<not> succeeds vision_tag_map
     (detection_writes (PBool True) (PFloat 1) (PFloat 2) (PFloat (1 / 2)) (PInt 1) (PFloat 12))
     plant_client 2 \<and>
   write_detection_result vision_tag_map (fst plant_client) (snd plant_client)
     (PBool True) (PFloat 1) (PFloat 2) (PFloat (1 / 2)) (PInt 1) (PFloat 12) =
     (Inr False, handle_error (fst plant_client) ''device error'',
      faulty_env\<lparr>calls := [ConnectExplicit ''10.0.0.5'' (Some 5),
                            WriteVariable ''PRODUCT_DETECTED'' (PBool True),
                            WriteVariable ''CENTROID_X'' (PFloat 1),
                            WriteVariable ''CENTROID_Y'' (PFloat 2)]\<rparr>)"
proof -
  let ?ws = "detection_writes (PBool True) (PFloat 1) (PFloat 2) (PFloat (1 / 2)) (PInt 1) (PFloat 12)"
  let ?r = "write_detection_result vision_tag_map (fst plant_client) (snd plant_client)
     (PBool True) (PFloat 1) (PFloat 2) (PFloat (1 / 2)) (PInt 1) (PFloat 12)"
  have p1: "perform vision_tag_map (take 1 ?ws) plant_client =
      (fst plant_client,
       faulty_env\<lparr>calls := [ConnectExplicit ''10.0.0.5'' (Some 5),
                            WriteVariable ''PRODUCT_DETECTED'' (PBool True)]\<rparr>)"
    by (simp add: detection_writes_def plant_first_write del: sub_write.simps)
  have p2: "perform vision_tag_map (take 2 ?ws) plant_client =
      (fst plant_client,
       faulty_env\<lparr>calls := [ConnectExplicit ''10.0.0.5'' (Some 5),
                            WriteVariable ''PRODUCT_DETECTED'' (PBool True),
                            WriteVariable ''CENTROID_X'' (PFloat 1)]\<rparr>)"
    by (simp add: detection_writes_def numeral_2_eq_2 plant_first_write plant_second_write
          del: sub_write.simps)
  have p3: "perform vision_tag_map (take (Suc 2) ?ws) plant_client =
      (handle_error (fst plant_client) ''device error'',
       faulty_env\<lparr>calls := [ConnectExplicit ''10.0.0.5'' (Some 5),
                            WriteVariable ''PRODUCT_DETECTED'' (PBool True),
                            WriteVariable ''CENTROID_X'' (PFloat 1),
                            WriteVariable ''CENTROID_Y'' (PFloat 2)]\<rparr>)"
    by (simp add: detection_writes_def numeral_2_eq_2 plant_first_write plant_second_write
          plant_third_write del: sub_write.simps)
  have s0: "succeeds vision_tag_map ?ws plant_client 0"
    by (simp add: succeeds_def detection_writes_def plant_first_write del: sub_write.simps)
  have s1: "succeeds vision_tag_map ?ws plant_client 1"
    using p1 by (simp add: succeeds_def del: sub_write.simps)
      (simp add: detection_writes_def plant_second_write del: sub_write.simps)
  have s2: "\<not> succeeds vision_tag_map ?ws plant_client 2"
    using p2 by (simp add: succeeds_def del: sub_write.simps)
      (simp add: detection_writes_def plant_third_write del: sub_write.simps)
  have below: "\<forall>j<2. succeeds vision_tag_map ?ws plant_client j"
  proof (intro allI impI)
    fix j :: nat assume "j < 2"
    then have "j = 0 \<or> j = 1" by auto
    with s0 s1 show "succeeds vision_tag_map ?ws plant_client j" by auto
  qed
  from write_detection_result_sequence [where tm = vision_tag_map
      and c = "fst plant_client" and e = "snd plant_client" and d = "PBool True"
      and x = "PFloat 1" and y = "PFloat 2" and cf = "PFloat (1 / 2)" and n = "PInt 1"
      and t = "PFloat 12"]
  have "\<forall>k<7. (\<forall>j<k. succeeds vision_tag_map ?ws plant_client j) \<and>
              \<not> succeeds vision_tag_map ?ws plant_client k \<longrightarrow>
          fst ?r = Inr False \<and> snd ?r = perform vision_tag_map (take (Suc k) ?ws) plant_client"
    by (simp add: Let_def)
  note at_k = this [rule_format, of 2]
  have "fst ?r = Inr False \<and> snd ?r = perform vision_tag_map (take (Suc 2) ?ws) plant_client"
  proof (rule at_k)
    show "(2::nat) < 7" by simp
    show "(\<forall>j<2. succeeds vision_tag_map ?ws plant_client j) \<and>
          \<not> succeeds vision_tag_map ?ws plant_client 2"
      using below s2 by (rule conjI)
  qed
  with p3 have "?r = (Inr False, handle_error (fst plant_client) ''device error'',
      faulty_env\<lparr>calls := [ConnectExplicit ''10.0.0.5'' (Some 5),
                            WriteVariable ''PRODUCT_DETECTED'' (PBool True),
                            WriteVariable ''CENTROID_X'' (PFloat 1),
                            WriteVariable ''CENTROID_Y'' (PFloat 2)]\<rparr>)"
    by (cases ?r) simp
  with s0 s1 s2 show ?thesis by simp
qed


text \<open>
  C10. \<open>write_detection_result\<close> never raises: for every tag map, client, environment
  and arguments its result is \<^verbatim>\<open>True\<close> or \<^verbatim>\<open>False\<close>. On a client that is not connected the
  first write raises the not-connected error and the result is \<^verbatim>\<open>False\<close> with nothing
  changed; the same holds when the first write fails a tag check; and whatever error
  the first failing write raises, the result is \<^verbatim>\<open>False\<close> and client and environment are
  as that write left them.
\<close>

theorem write_detection_result_never_raises:
  "(let ws = detection_writes d x y cf n t;
        r = write_detection_result tm c e d x y cf n t
    in (fst r = Inr True \<or> fst r = Inr False) \<and>
       (\<not> is_connected (self_state c) \<longrightarrow> r = (Inr False, c, e)) \<and>
       (is_connected (self_state c) \<and>
          (\<not> is_valid_tag tm ''ProductDetected'' \<or> \<not> is_writable tm ''ProductDetected'' \<or>
           \<not> validate_value tm ''ProductDetected'' d) \<longrightarrow> r = (Inr False, c, e)) \<and>
       (\<forall>k<7. \<forall>err s. (\<forall>j<k. succeeds tm ws (c, e) j) \<and>
            sub_write tm (perform tm (take k ws) (c, e)) (ws ! k) = (Inl err, s)
          \<longrightarrow> r = (Inr False, s)))"
proof -
  define ws where "ws = detection_writes d x y cf n t"
  define r where "r = write_detection_result tm c e d x y cf n t"
  have len: "length ws = 7" by (simp add: ws_def detection_writes_length)
  have r: "r = (case write_all tm ws (c, e) of
                  (Inr _, s) \<Rightarrow> (Inr True, s) | (Inl err, s) \<Rightarrow> (Inr False, s))"
    by (simp add: r_def ws_def write_detection_result_write_all)
  have a: "fst r = Inr True \<or> fst r = Inr False"
    by (simp add: r split: prod.splits sum.splits)
  have first: "r = (Inr False, c, e)" if "write_tag tm c e ''ProductDetected'' d = (Inl err, c, e)" for err
    using that by (simp add: r ws_def detection_writes_def)
  have b: "r = (Inr False, c, e)" if "\<not> is_connected (self_state c)"
    using that by (intro first) (simp add: write_tag_def)
  have c: "r = (Inr False, c, e)"
    if "is_connected (self_state c) \<and>
          (\<not> is_valid_tag tm ''ProductDetected'' \<or> \<not> is_writable tm ''ProductDetected'' \<or>
           \<not> validate_value tm ''ProductDetected'' d)"
  proof -
    from that have "\<exists>err. write_tag tm c e ''ProductDetected'' d = (Inl err, c, e)"
      by (auto simp: write_tag_def)
    then show ?thesis using first by blast
  qed
  have d: "r = (Inr False, s)"
    if "k < 7" "\<forall>j<k. succeeds tm ws (c, e) j"
       "sub_write tm (perform tm (take k ws) (c, e)) (ws ! k) = (Inl err, s)" for k err s
  proof -
    have "\<not> succeeds tm ws (c, e) k" using that(3) by (simp add: succeeds_def)
    from write_all_failure [of k ws tm "(c, e)"] this that(1,2) len
    obtain err' where "write_all tm ws (c, e) = (Inl err', perform tm (take (Suc k) ws) (c, e))"
      by auto
    moreover have "perform tm (take (Suc k) ws) (c, e) = s"
      using perform_take_Suc [of k ws tm "(c, e)"] that(1,3) len by simp
    ultimately show ?thesis by (simp add: r)
  qed
  from d have d': "\<forall>k<7. \<forall>err s. (\<forall>j<k. succeeds tm ws (c, e) j) \<and>
            sub_write tm (perform tm (take k ws) (c, e)) (ws ! k) = (Inl err, s)
          \<longrightarrow> r = (Inr False, s)" by blast
  from a b c d' show ?thesis
    unfolding Let_def ws_def [symmetric] r_def [symmetric] by blast
qed

theorem write_detection_result_never_raises_witness:
  "\<not> is_connected (self_state (CIPClient_init unreachable_env)) \<and>
   write_detection_result vision_tag_map (CIPClient_init unreachable_env) unreachable_env
     (PBool True) (PFloat 1) (PFloat 2) (PFloat (1 / 2)) (PInt 1) (PFloat 12) =
     (Inr False, CIPClient_init unreachable_env, unreachable_env) \<and>
   is_connected (self_state fallback_client) \<and>
   \<not> validate_value vision_tag_map ''ProductDetected'' (PInt 7) \<and>
   write_detection_result vision_tag_map fallback_client unreachable_env
     (PInt 7) (PFloat 1) (PFloat 2) (PFloat (1 / 2)) (PInt 1) (PFloat 12) =
     (Inr False, fallback_client, unreachable_env)"
proof -
  have d: "\<not> is_connected (self_state (CIPClient_init unreachable_env))"
    by (simp add: CIPClient_init_def Let_def is_connected_def)
  have v: "\<not> validate_value vision_tag_map ''ProductDetected'' (PInt 7)"
    by (simp add: tag_defs)
  from write_detection_result_never_raises [where tm = vision_tag_map
      and c = "CIPClient_init unreachable_env" and e = unreachable_env and d = "PBool True"
      and x = "PFloat 1" and y = "PFloat 2" and cf = "PFloat (1 / 2)" and n = "PInt 1"
      and t = "PFloat 12"] d
  have a: "write_detection_result vision_tag_map (CIPClient_init unreachable_env) unreachable_env
     (PBool True) (PFloat 1) (PFloat 2) (PFloat (1 / 2)) (PInt 1) (PFloat 12) =
     (Inr False, CIPClient_init unreachable_env, unreachable_env)"
    by (simp add: Let_def)
  from write_detection_result_never_raises [where tm = vision_tag_map
      and c = fallback_client and e = unreachable_env and d = "PInt 7"
      and x = "PFloat 1" and y = "PFloat 2" and cf = "PFloat (1 / 2)" and n = "PInt 1"
      and t = "PFloat 12"]
    fallback_client_connected v
  have b: "write_detection_result vision_tag_map fallback_client unreachable_env
     (PInt 7) (PFloat 1) (PFloat 2) (PFloat (1 / 2)) (PInt 1) (PFloat 12) =
     (Inr False, fallback_client, unreachable_env)"
    by (simp add: Let_def)
  from a b d v fallback_client_connected show ?thesis by simp
qed

section \<open>Error accounting and the degraded status\<close>

lemma handle_error_status:
  "status (self_state (handle_error c err)) =
     (if 5 \<le> error_count (self_state c) \<and> status (self_state c) = CONNECTED
      then DEGRADED else status (self_state c))"
  by (simp add: handle_error_def update_state_def Let_def)

lemma handle_error_count:
  "error_count (self_state (handle_error c err)) = error_count (self_state c) + 1"
  by (simp add: handle_error_def update_state_def Let_def)

lemma write_tag_keeps_degraded:
  "status (self_state c) = DEGRADED \<Longrightarrow>
   status (self_state (fst (snd (write_tag tm c e name v)))) = DEGRADED"
  by (auto simp: write_tag_def handle_error_status split: sum.splits option.splits prod.splits)

lemma read_tag_keeps_degraded:
  "status (self_state c) = DEGRADED \<Longrightarrow>
   status (self_state (fst (snd (read_tag tm c e name)))) = DEGRADED"
  by (auto simp: read_tag_def handle_error_status split: sum.splits option.splits prod.splits)

lemma write_all_keeps_degraded:
  "status (self_state (fst s)) = DEGRADED \<Longrightarrow>
   status (self_state (fst (snd (write_all tm ws s)))) = DEGRADED"
proof (induction ws arbitrary: s)
  case Nil
  then show ?case by simp
next
  case (Cons w ws)
  obtain c e where s: "s = (c, e)" by (cases s)
  obtain name v where w: "w = (name, v)" by (cases w)
  obtain r c' e' where r: "write_tag tm c e name v = (r, c', e')" by (cases "write_tag tm c e name v")
  have "status (self_state c') = DEGRADED"
    using write_tag_keeps_degraded [of c tm e name v] Cons.prems by (simp add: s r)
  with Cons.IH [of "(c', e')"] show ?case
    by (cases r) (simp_all add: s w r)
qed

lemma write_detection_result_keeps_degraded:
  "status (self_state c) = DEGRADED \<Longrightarrow>
   status (self_state (fst (snd (write_detection_result tm c e d x y cf n t)))) = DEGRADED"
  using write_all_keeps_degraded [of "(c, e)" tm "detection_writes d x y cf n t"]
  by (auto simp: write_detection_result_write_all split: prod.splits sum.splits)

lemma step_keeps_degraded:
  "status (self_state c) = DEGRADED \<Longrightarrow> ev \<noteq> Disconnect \<Longrightarrow>
   status (self_state (fst (step tm ev (c, e)))) = DEGRADED"
proof (cases ev)
  case Connect
  assume "status (self_state c) = DEGRADED"
  then show ?thesis by (simp add: Connect connect_def is_connected_def)
next
  case Disconnect
  assume "ev \<noteq> Disconnect"
  with Disconnect show ?thesis by simp
next
  case (ReadTag name)
  assume "status (self_state c) = DEGRADED"
  then show ?thesis by (simp add: ReadTag read_tag_keeps_degraded)
next
  case (WriteTag name v)
  assume "status (self_state c) = DEGRADED"
  then show ?thesis by (simp add: WriteTag write_tag_keeps_degraded)
next
  case (WriteDetectionResult d x y cf n t)
  assume "status (self_state c) = DEGRADED"
  then show ?thesis by (simp add: WriteDetectionResult write_detection_result_keeps_degraded)
next
  case HeartbeatTimeout
  assume "status (self_state c) = DEGRADED"
  then show ?thesis
    using write_tag_keeps_degraded
      [of "c\<lparr>self_heartbeat_value := \<not> self_heartbeat_value c\<rparr>" tm e "''VisionHeartbeat''"
          "PBool (\<not> self_heartbeat_value c)"]
    by (simp add: HeartbeatTimeout send_heartbeat_def Let_def
          split: option.splits QTimer.splits)
next
  case TimerFires
  assume "status (self_state c) = DEGRADED"
  then show ?thesis by (simp add: TimerFires)
next
  case (SaveSettings s)
  assume "status (self_state c) = DEGRADED"
  then show ?thesis by (simp add: SaveSettings)
qed

lemma run_keeps_degraded:
  "status (self_state (fst s)) = DEGRADED \<Longrightarrow> Disconnect \<notin> set evs \<Longrightarrow>
   status (self_state (fst (run tm evs s))) = DEGRADED"
proof (induction evs arbitrary: s)
  case Nil
  then show ?case by simp
next
  case (Cons ev evs)
  obtain c e where s: "s = (c, e)" by (cases s)
  from Cons.prems have "status (self_state (fst (step tm ev (c, e)))) = DEGRADED"
    by (intro step_keeps_degraded) (auto simp: s)
  with Cons.IH [of "step tm ev (c, e)"] Cons.prems show ?case by (simp add: s)
qed

lemma disconnect_error_count:
  "error_count (self_state (fst (disconnect c e))) = error_count (self_state c)"
  by (simp add: disconnect_def stop_heartbeat_def update_state_def Let_def
        split: option.splits prod.splits)

lemma disconnect_status:
  "status (self_state (fst (disconnect c e))) = DISCONNECTED"
  by (simp add: disconnect_def stop_heartbeat_def update_state_def Let_def
        split: option.splits prod.splits)

lemma connect_error_count:
  "error_count (self_state (fst (snd (connect c e)))) = error_count (self_state c)"
proof (cases "is_connected (self_state c)")
  case True
  then show ?thesis by (simp add: connect_def)
next
  case False
  obtain r c' e' where res: "connect c e = (r, c', e')" by (cases "connect c e")
  from connect_post [OF False res] show ?thesis by (simp add: res)
qed

lemma connect_returns_True:
  "self_heartbeat_timer c \<noteq> None \<or> heartbeat_startable (get_settings e) \<Longrightarrow>
   fst (connect c e) = Inr True"
proof (cases "is_connected (self_state c)")
  case True
  then show ?thesis by (simp add: connect_def)
next
  case False
  assume ok: "self_heartbeat_timer c \<noteq> None \<or> heartbeat_startable (get_settings e)"
  obtain r c' e' where res: "connect c e = (r, c', e')" by (cases "connect c e")
  from connect_post [OF False res] ok show ?thesis by (auto simp: res)
qed

text \<open>
  C2, as the code has it. When an error is counted on a client whose status is
  \<open>CONNECTED\<close> and whose \<open>error_count\<close> thereby exceeds 5, the status becomes
  \<open>DEGRADED\<close>. From \<open>DEGRADED\<close> the status stays \<open>DEGRADED\<close> under every sequence of
  events that contains no disconnect. A disconnect sets the status \<open>DISCONNECTED\<close>, and
  the connect that follows it, which returns \<^verbatim>\<open>True\<close> whenever the heartbeat timer can be
  started, leaves \<open>error_count\<close> as it was before the disconnect: nothing in the client
  resets the counter.
\<close>

theorem degraded_until_disconnect:
  "(status (self_state c) = CONNECTED \<and> 5 \<le> error_count (self_state c) \<longrightarrow>
      status (self_state (handle_error c err)) = DEGRADED \<and>
      error_count (self_state (handle_error c err)) = error_count (self_state c) + 1) \<and>
   (status (self_state c) = DEGRADED \<and> Disconnect \<notin> set evs \<longrightarrow>
      status (self_state (fst (run tm evs (c, e)))) = DEGRADED) \<and>
   (case disconnect c e of (c1, e1) \<Rightarrow>
      status (self_state c1) = DISCONNECTED \<and>
      (case connect c1 e1 of (r, c2, e2) \<Rightarrow>
         (heartbeat_startable (get_settings e1) \<longrightarrow> r = Inr True) \<and>
         error_count (self_state c2) = error_count (self_state c)))"
proof -
  have a: "status (self_state c) = CONNECTED \<and> 5 \<le> error_count (self_state c) \<longrightarrow>
      status (self_state (handle_error c err)) = DEGRADED \<and>
      error_count (self_state (handle_error c err)) = error_count (self_state c) + 1"
    by (simp add: handle_error_status handle_error_count)
  have b: "status (self_state c) = DEGRADED \<and> Disconnect \<notin> set evs \<longrightarrow>
      status (self_state (fst (run tm evs (c, e)))) = DEGRADED"
    using run_keeps_degraded [of "(c, e)" evs tm] by simp
  obtain c1 e1 where d: "disconnect c e = (c1, e1)" by (cases "disconnect c e")
  obtain r c2 e2 where k: "connect c1 e1 = (r, c2, e2)" by (cases "connect c1 e1")
  have d1: "status (self_state c1) = DISCONNECTED"
    using disconnect_status [of c e] by (simp add: d)
  have "error_count (self_state c1) = error_count (self_state c)"
    using disconnect_error_count [of c e] by (simp add: d)
  moreover have "error_count (self_state c2) = error_count (self_state c1)"
    using connect_error_count [of c1 e1] by (simp add: k)
  moreover have "heartbeat_startable (get_settings e1) \<longrightarrow> r = Inr True"
    using connect_returns_True [of c1 e1] by (simp add: k)
  ultimately show ?thesis using a b d1 by (simp add: d k)
qed

lemma deaf_read_fails:
  "respond e = respond deaf_env \<Longrightarrow> is_connected (self_state c) \<Longrightarrow>
   self_simulated_plc c = None \<Longrightarrow> self_plc c = Some NSeries \<Longrightarrow>
   read_tag vision_tag_map c e ''RobotAck'' =
     (Inl (CIPTagError (ReadFailed ''RobotAck'' ''timeout'')), handle_error c ''timeout'',
      e\<lparr>calls := calls e @ [ReadVariable ''ROBOT_ACK'']\<rparr>)"
  by (simp add: read_tag_def tag_defs driver_call_def deaf_env_def)

lemma handle_error_keeps:
  "self_simulated_plc (handle_error c err) = self_simulated_plc c"
  "self_plc (handle_error c err) = self_plc c"
  "is_connected (self_state c) \<Longrightarrow> is_connected (self_state (handle_error c err))"
  by (auto simp: handle_error_def update_state_def Let_def is_connected_def)

lemma deaf_connect:
  "connect (CIPClient_init deaf_env) deaf_env =
    (Inr True,
     \<lparr>self_settings = plant_settings, self_ip = ''10.0.0.5'', self_port = 44818,
      self_timeout = 5, self_simulated = False, self_plc = Some NSeries,
      self_simulated_plc = None,
      self_state = \<lparr>status = CONNECTED, ip = ''10.0.0.5'', port = 44818,
                     is_simulated = False, last_connected = Some 0, last_error = None,
                     error_count = 0\<rparr>,
      self_heartbeat_timer = Some (QTimer (Some 1000)), self_heartbeat_value = False,
      self_reconnect_attempts = 0, self_max_reconnect_attempts = 3\<rparr>,
     deaf_env\<lparr>calls := [ConnectExplicit ''10.0.0.5'' (Some 5)]\<rparr>)"
  by (simp add: client_defs deaf_env_def plant_settings_def)

lemma disconnect_env:
  "get_settings (snd (disconnect c e)) = get_settings e"
  "aphyt_installed (snd (disconnect c e)) = aphyt_installed e"
  "respond (snd (disconnect c e)) = respond e"
  by (simp_all add: disconnect_def driver_call_def Let_def split: option.splits prod.splits)

lemma deaf_env_fields:
  "get_settings deaf_env = plant_settings" "aphyt_installed deaf_env"
  by (simp_all add: deaf_env_def)

lemma worn_client_state:
  "status (self_state (fst worn_client)) = CONNECTED"
  "error_count (self_state (fst worn_client)) = 5"
  "get_settings (snd worn_client) = plant_settings"
  by (simp_all add: worn_client_def deaf_connect deaf_read_fails handle_error_keeps
        is_connected_def handle_error_status handle_error_count deaf_env_fields)

theorem degraded_until_disconnect_witness:
  "status (self_state (fst worn_client)) = CONNECTED \<and>
   error_count (self_state (fst worn_client)) = 5 \<and>
   status (self_state (handle_error (fst worn_client) ''timeout'')) = DEGRADED \<and>
   error_count (self_state (handle_error (fst worn_client) ''timeout'')) = 6 \<and>
   status (self_state (fst (run vision_tag_map
       [ReadTag ''RobotAck'', WriteTag ''CentroidX'' (PFloat 1), HeartbeatTimeout, Connect]
       (handle_error (fst worn_client) ''timeout'', snd worn_client)))) = DEGRADED \<and>
   heartbeat_startable (get_settings (snd (disconnect (fst worn_client) (snd worn_client)))) \<and>
   fst (connect (fst (disconnect (fst worn_client) (snd worn_client)))
                (snd (disconnect (fst worn_client) (snd worn_client)))) = Inr True \<and>
   error_count (self_state (fst (snd
       (connect (fst (disconnect (fst worn_client) (snd worn_client)))
                (snd (disconnect (fst worn_client) (snd worn_client))))))) = 5"
proof -
  let ?c = "fst worn_client"
  let ?e = "snd worn_client"
  let ?evs = "[ReadTag ''RobotAck'', WriteTag ''CentroidX'' (PFloat 1), HeartbeatTimeout, Connect]"
  note first = degraded_until_disconnect [where c = ?c and e = ?e and err = "''timeout''"
      and evs = "[]" and tm = vision_tag_map]
  from first worn_client_state
  have a: "status (self_state (handle_error ?c ''timeout'')) = DEGRADED \<and>
      error_count (self_state (handle_error ?c ''timeout'')) = 6"
    by simp
  from first worn_client_state
  have c: "error_count (self_state (fst (snd
       (connect (fst (disconnect ?c ?e)) (snd (disconnect ?c ?e)))))) = 5"
    by (simp split: prod.splits)
  have hb: "heartbeat_startable (get_settings (snd (disconnect ?c ?e)))"
    by (simp add: disconnect_env worn_client_state plant_heartbeat_startable)
  from first hb
  have r: "fst (connect (fst (disconnect ?c ?e)) (snd (disconnect ?c ?e))) = Inr True"
    by (simp split: prod.splits)
  have free: "Disconnect \<notin> set ?evs" by simp
  from degraded_until_disconnect [where c = "handle_error ?c ''timeout''" and e = ?e
      and err = "''timeout''" and evs = ?evs and tm = vision_tag_map] a free
  have b: "status (self_state (fst (run vision_tag_map ?evs
       (handle_error ?c ''timeout'', ?e)))) = DEGRADED"
    by blast
  from a b c hb r worn_client_state show ?thesis by simp
qed


lemma deaf_reconnect:
  "\<not> is_connected (self_state c) \<Longrightarrow> get_settings e = plant_settings \<Longrightarrow>
   aphyt_installed e \<Longrightarrow> respond e = respond deaf_env \<Longrightarrow>
   status (self_state (fst (snd (connect c e)))) = CONNECTED"
  by (simp add: connect_def reload_connection_config_def update_state_def connect_sync_def
        driver_call_def start_heartbeat_def Let_def deaf_env_def plant_settings_def
        heartbeat_one_second c_int_def)

lemma deaf_first_error:
  "error_count (self_state (fst (run vision_tag_map [Connect, ReadTag ''RobotAck'']
      (CIPClient_init deaf_env, deaf_env)))) = 1"
  "get_settings (snd (run vision_tag_map [Connect, ReadTag ''RobotAck'']
      (CIPClient_init deaf_env, deaf_env))) = plant_settings"
  "aphyt_installed (snd (run vision_tag_map [Connect, ReadTag ''RobotAck'']
      (CIPClient_init deaf_env, deaf_env)))"
  "respond (snd (run vision_tag_map [Connect, ReadTag ''RobotAck'']
      (CIPClient_init deaf_env, deaf_env))) = respond deaf_env"
  by (simp_all add: deaf_connect deaf_read_fails is_connected_def handle_error_count
        deaf_env_fields)

lemma run_append: "run tm (xs @ ys) s = run tm ys (run tm xs s)"
  by (induction xs arbitrary: s) simp_all

lemma run_disconnect_connect:
  "run tm [Disconnect, Connect] s =
     snd (connect (fst (disconnect (fst s) (snd s))) (snd (disconnect (fst s) (snd s))))"
  by (cases s; cases "disconnect (fst s) (snd s)") simp

text \<open>
  C2, as stated, fails in its last part: after connecting and one failed read
  \<open>error_count\<close> is 1, and after a disconnect and a connect that succeeds (the status is
  \<open>CONNECTED\<close>) it is still 1, not 0.
\<close>

theorem error_count_survives_reconnect:
  "error_count (self_state (fst (run vision_tag_map [Connect, ReadTag ''RobotAck'']
      (CIPClient_init deaf_env, deaf_env)))) = 1 \<and>
   status (self_state (fst (run vision_tag_map [Connect, ReadTag ''RobotAck'', Disconnect, Connect]
      (CIPClient_init deaf_env, deaf_env)))) = CONNECTED \<and>
   error_count (self_state (fst (run vision_tag_map
      [Connect, ReadTag ''RobotAck'', Disconnect, Connect]
      (CIPClient_init deaf_env, deaf_env)))) = 1 \<and>
   error_count (self_state (fst (run vision_tag_map
      [Connect, ReadTag ''RobotAck'', Disconnect, Connect]
      (CIPClient_init deaf_env, deaf_env)))) \<noteq> 0"
proof -
  let ?s = "run vision_tag_map [Connect, ReadTag ''RobotAck''] (CIPClient_init deaf_env, deaf_env)"
  let ?d = "disconnect (fst ?s) (snd ?s)"
  have "run vision_tag_map ([Connect, ReadTag ''RobotAck''] @ [Disconnect, Connect])
      (CIPClient_init deaf_env, deaf_env) = snd (connect (fst ?d) (snd ?d))"
    by (simp only: run_append run_disconnect_connect)
  then have split: "run vision_tag_map [Connect, ReadTag ''RobotAck'', Disconnect, Connect]
      (CIPClient_init deaf_env, deaf_env) = snd (connect (fst ?d) (snd ?d))"
    by (simp only: append.simps)
  have down: "\<not> is_connected (self_state (fst ?d))"
    by (simp add: is_connected_def disconnect_status del: run.simps)
  have up: "status (self_state (fst (snd (connect (fst ?d) (snd ?d))))) = CONNECTED"
    using down
    by (rule deaf_reconnect) (simp_all add: disconnect_env deaf_first_error del: run.simps)
  have count: "error_count (self_state (fst (snd (connect (fst ?d) (snd ?d))))) = 1"
    by (simp add: connect_error_count disconnect_error_count deaf_first_error del: run.simps)
  from up count show ?thesis
    unfolding split by (simp add: deaf_first_error del: run.simps)
qed


section \<open>The simulated flag\<close>

text \<open>
  C3 does not hold of the code. The first connection attempt is refused, so the client
  runs simulated and \<open>is_simulated\<close> is set. After a disconnect the second attempt is
  accepted: the status is \<open>CONNECTED\<close>, the client holds the driver handle and no
  simulated PLC, and \<open>is_simulated\<close> is still set, since neither \<open>disconnect\<close> nor the
  real branch of \<open>connect\<close> clears it.
\<close>

theorem simulated_flag_survives_reconnect:
  "status (self_state (fst (run vision_tag_map [Connect]
      (CIPClient_init recovering_env, recovering_env)))) = SIMULATED \<and>
   is_simulated (self_state (fst (run vision_tag_map [Connect]
      (CIPClient_init recovering_env, recovering_env)))) \<and>
   status (self_state (fst (run vision_tag_map [Connect, Disconnect, Connect]
      (CIPClient_init recovering_env, recovering_env)))) = CONNECTED \<and>
   is_simulated (self_state (fst (run vision_tag_map [Connect, Disconnect, Connect]
      (CIPClient_init recovering_env, recovering_env)))) \<and>
   self_simulated_plc (fst (run vision_tag_map [Connect, Disconnect, Connect]
      (CIPClient_init recovering_env, recovering_env))) = None \<and>
   self_plc (fst (run vision_tag_map [Connect, Disconnect, Connect]
      (CIPClient_init recovering_env, recovering_env))) = Some NSeries"
  by (simp add: client_defs disconnect_def stop_heartbeat_def recovering_env_def
        plant_settings_def)


text \<open>
  The other half of the invariant does hold: in every state reached from a state in
  which status \<open>SIMULATED\<close> implies \<open>is_simulated\<close> (the initial state is one), status
  \<open>SIMULATED\<close> implies \<open>is_simulated\<close>.
\<close>

lemma handle_error_flag: "flag_agrees c \<Longrightarrow> flag_agrees (handle_error c err)"
  by (auto simp: flag_agrees_def handle_error_def update_state_def Let_def)

lemma simulated_plc_update_flag [simp]:
  "flag_agrees (c\<lparr>self_simulated_plc := p\<rparr>) = flag_agrees c"
  by (simp add: flag_agrees_def)

lemma write_tag_flag:
  "flag_agrees c \<Longrightarrow> flag_agrees (fst (snd (write_tag tm c e name v)))"
  by (auto simp: write_tag_def handle_error_flag split: sum.splits option.splits prod.splits)

lemma read_tag_flag:
  "flag_agrees c \<Longrightarrow> flag_agrees (fst (snd (read_tag tm c e name)))"
  by (auto simp: read_tag_def handle_error_flag split: sum.splits option.splits prod.splits)

lemma write_all_flag:
  "flag_agrees (fst s) \<Longrightarrow> flag_agrees (fst (snd (write_all tm ws s)))"
proof (induction ws arbitrary: s)
  case Nil
  then show ?case by simp
next
  case (Cons w ws)
  obtain c e where s: "s = (c, e)" by (cases s)
  obtain name v where w: "w = (name, v)" by (cases w)
  obtain r c' e' where r: "write_tag tm c e name v = (r, c', e')" by (cases "write_tag tm c e name v")
  have "flag_agrees c'"
    using write_tag_flag [of c tm e name v] Cons.prems by (simp add: s r)
  with Cons.IH [of "(c', e')"] show ?case
    by (cases r) (simp_all add: s w r)
qed

lemma connect_flag: "flag_agrees c \<Longrightarrow> flag_agrees (fst (snd (connect c e)))"
proof (cases "is_connected (self_state c)")
  case True
  assume "flag_agrees c"
  with True show ?thesis by (simp add: connect_def)
next
  case False
  obtain r c' e' where res: "connect c e = (r, c', e')" by (cases "connect c e")
  from connect_post [OF False res] show ?thesis by (simp add: res flag_agrees_def)
qed

lemma disconnect_flag: "flag_agrees (fst (disconnect c e))"
  by (simp add: flag_agrees_def disconnect_status)

lemma step_flag: "flag_agrees c \<Longrightarrow> flag_agrees (fst (step tm ev (c, e)))"
proof (cases ev)
  case (WriteDetectionResult d x y cf n t)
  assume "flag_agrees c"
  then show ?thesis
    using write_all_flag [of "(c, e)" tm "detection_writes d x y cf n t"]
    by (auto simp: WriteDetectionResult write_detection_result_write_all
          split: prod.splits sum.splits)
next
  case HeartbeatTimeout
  assume "flag_agrees c"
  then have "flag_agrees (c\<lparr>self_heartbeat_value := \<not> self_heartbeat_value c\<rparr>)"
    by (simp add: flag_agrees_def)
  from write_tag_flag [OF this, of tm e "''VisionHeartbeat''" "PBool (\<not> self_heartbeat_value c)"]
    \<open>flag_agrees c\<close>
  show ?thesis
    by (simp add: HeartbeatTimeout send_heartbeat_def Let_def split: option.splits QTimer.splits)
next
  case (SaveSettings s)
  assume "flag_agrees c"
  then show ?thesis by (simp add: SaveSettings)
qed (simp_all add: connect_flag disconnect_flag read_tag_flag write_tag_flag)

lemma simulated_status_has_flag:
  "flag_agrees (fst s) \<Longrightarrow> flag_agrees (fst (run tm evs s))"
proof (induction evs arbitrary: s)
  case Nil
  then show ?case by simp
next
  case (Cons ev evs)
  obtain c e where s: "s = (c, e)" by (cases s)
  from Cons.prems have "flag_agrees (fst (step tm ev (c, e)))"
    by (intro step_flag) (simp add: s)
  with Cons.IH [of "step tm ev (c, e)"] show ?case by (simp add: s)
qed

end
